theory Spec2Isabelle
  imports Complex_Main
begin

section \<open>The BCV overlap engine of BankEfficiency.c\<close>

text \<open>
  The development embeds the matched-filter core of
  \<^verbatim>\<open>lalapps/src/findchirp/BankEfficiency.c\<close>: the best-match merge
  \<^verbatim>\<open>KeepHighestValues\<close>, the moment calculator \<^verbatim>\<open>LALCreateMomentVector\<close>, the
  orthogonalizer \<^verbatim>\<open>LALGetOrthogonalFilterBCV2\<close>, the power-vector builder
  \<^verbatim>\<open>LALCreateVectorFreqPower\<close> with its caller \<^verbatim>\<open>BECreatePowerVector\<close>, the
  filter constructor \<^verbatim>\<open>LALCreateFilters\<close> and the overlap function
  \<^verbatim>\<open>LALWaveOverlapBCV\<close>.

  Conventions of the embedding.
  \<^item> \<^verbatim>\<open>REAL4\<close> and \<^verbatim>\<open>REAL8\<close> values are mathematical reals, and the functions of
    the embedding carry out exactly the arithmetic the code writes down: they have no
    rounding, no overflow, no infinity and no NaN, and a quotient by zero is \<open>0\<close> in
    them. Two refinements add what a property below depends on: the quantities of one
    sample of the overlap loop evaluated with rounding to \<^verbatim>\<open>REAL4\<close> and \<^verbatim>\<open>REAL8\<close>
    (\<open>to_REAL4\<close>, \<open>to_REAL8\<close>), and the entries of the moment arrays evaluated with
    the infinities and NaN of a division by zero (\<open>moment_entries\<close>). Every other
    statement is a statement about exact arithmetic.
  \<^item> A \<^verbatim>\<open>REAL4Vector\<close> is a \<open>real list\<close>; its \<^verbatim>\<open>length\<close> field is the length of
    the list. A write \<^verbatim>\<open>v->data[i] = x\<close> is \<open>v[i := x]\<close>, a read is \<open>v ! i\<close>. An access
    outside the allocation is undefined behaviour in C; theorems that depend on such
    an access being in range say so in a hypothesis.
  \<^item> \<^verbatim>\<open>UINT4\<close> loop counters are naturals; where the source subtracts on
    \<^verbatim>\<open>UINT4\<close> the wrap-around modulo \<open>2 ^ 32\<close> is written out.
  \<^item> A \<^verbatim>\<open>for\<close> loop over \<open>i = lo, ..., hi - 1\<close> is a \<open>fold\<close> of its body over
    \<open>[lo..<hi]\<close>; a loop whose body can leave the program is a recursion over the
    same list that stops at the first failure.
  \<^item> Output written to files and to \<^verbatim>\<open>stderr\<close> is not part of the state; a call of
    \<^verbatim>\<open>exit\<close> and an early return through \<^verbatim>\<open>CHECKSTATUSPTR\<close> are results of type
    \<open>failure\<close>.
\<close>

subsection \<open>Best-match tracker\<close>

text \<open>
  The structure \<^verbatim>\<open>OverlapOutputIn\<close> is declared in \<^verbatim>\<open>BankEfficiency.h\<close>; its fields
  are the fourteen that \<^verbatim>\<open>BEInitOverlapOutputIn\<close> initialises.
\<close>

record OverlapOutputIn =
  rhoMax :: real
  phase :: real
  rhoBin :: int
  templateNumber :: int
  alpha :: real
  layer :: int
  freq :: real
  rhoMaxU :: real
  phaseU :: real
  rhoBinU :: int
  templateNumberU :: int
  alphaU :: real
  layerU :: int
  freqU :: real

definition BEInitOverlapOutputIn :: "OverlapOutputIn" where
  "BEInitOverlapOutputIn =
     \<lparr> rhoMax = -1, phase = -1, rhoBin = 0, templateNumber = 0, alpha = -1,
       layer = 0, freq = -1,
       rhoMaxU = -1, phaseU = -1, rhoBinU = 0, templateNumberU = 0, alphaU = -1,
       layerU = 0, freqU = -1 \<rparr>"

text \<open>
  \<^verbatim>\<open>KeepHighestValues\<close> takes the candidate by value and the best record by pointer;
  the updated best record is returned. The two \<^verbatim>\<open>if\<close> blocks run one after the other.
\<close>

definition KeepHighestValues :: "OverlapOutputIn \<Rightarrow> OverlapOutputIn \<Rightarrow> OverlapOutputIn" where
  "KeepHighestValues resultThisTemplate resultBestTemplate =
     (let best1 =
        (if rhoMax resultThisTemplate > rhoMax resultBestTemplate
         then resultBestTemplate
                \<lparr> rhoMax := rhoMax resultThisTemplate,
                  phase := phase resultThisTemplate,
                  alpha := alpha resultThisTemplate,
                  rhoBin := rhoBin resultThisTemplate,
                  freq := freq resultThisTemplate,
                  layer := layer resultThisTemplate,
                  templateNumber := templateNumber resultThisTemplate \<rparr>
         else resultBestTemplate)
      in
        (if rhoMaxU resultThisTemplate > rhoMaxU best1
         then best1
                \<lparr> rhoMaxU := rhoMaxU resultThisTemplate,
                  phaseU := phaseU resultThisTemplate,
                  alphaU := alphaU resultThisTemplate,
                  rhoBinU := rhoBinU resultThisTemplate,
                  freqU := freqU resultThisTemplate,
                  layerU := layerU resultThisTemplate,
                  templateNumberU := templateNumberU resultThisTemplate \<rparr>
         else best1))"

text \<open>The two sub-records the merge speaks about, as tuples of fields.\<close>

definition constrained_part :: "OverlapOutputIn \<Rightarrow> real \<times> real \<times> real \<times> int \<times> real \<times> int \<times> int" where
  "constrained_part r = (rhoMax r, phase r, alpha r, rhoBin r, freq r, layer r, templateNumber r)"

definition unconstrained_part :: "OverlapOutputIn \<Rightarrow> real \<times> real \<times> real \<times> int \<times> real \<times> int \<times> int" where
  "unconstrained_part r =
     (rhoMaxU r, phaseU r, alphaU r, rhoBinU r, freqU r, layerU r, templateNumberU r)"

subsection \<open>Orthogonalizer\<close>

text \<open>
  One pass of the loop body of \<^verbatim>\<open>LALGetOrthogonalFilterBCV2\<close>:
  \<^verbatim>\<open>temp = data[i]; data[i] = -data[n-i]; data[n-i] = temp;\<close>
\<close>

definition orthogonal_swap :: "nat \<Rightarrow> nat \<Rightarrow> real list \<Rightarrow> real list" where
  "orthogonal_swap n i d = (let temp = d ! i in (d[i := - (d ! (n - i))])[n - i := temp])"

definition LALGetOrthogonalFilterBCV2 :: "real list \<Rightarrow> real list" where
  "LALGetOrthogonalFilterBCV2 filter' =
     (let n = length filter'; nby2 = length filter' div 2
      in fold (orthogonal_swap n) [1..<nby2] filter')"

text \<open>The indices the loop touches: \<open>i\<close> and \<open>n - i\<close> for \<open>1 \<le> i < n div 2\<close>.\<close>

definition swapped_index :: "nat \<Rightarrow> nat \<Rightarrow> bool" where
  "swapped_index n j \<longleftrightarrow> (1 \<le> j \<and> j < n div 2) \<or> (n - n div 2 < j \<and> j < n)"

subsection \<open>Frequency-power vectors\<close>

text \<open>
  Of \<^verbatim>\<open>InspiralTemplate\<close> (declared in the LAL headers) the embedded functions read
  and write the five fields below.
\<close>

record InspiralTemplate =
  fLower :: real
  tSampling :: real
  fFinal :: real
  nStartPad :: nat
  startPhase :: real

text \<open>
  \<^verbatim>\<open>pow\<close> of \<^verbatim>\<open>math.h\<close>. For a positive base it is the real power \<open>x powr y\<close>; the
  theorems below use it on positive bases only. At base \<open>0\<close> with a negative exponent
  the C function returns an infinity where \<open>0 powr y\<close> is \<open>0\<close>, and at a negative base
  with a fractional exponent it returns a NaN.
\<close>

definition pow :: "real \<Rightarrow> real \<Rightarrow> real" where
  "pow x y = x powr y"

text \<open>
  \<^verbatim>\<open>LALCreateVectorFreqPower(vector, params, a, b)\<close> overwrites \<^verbatim>\<open>vector\<close> in place:
  \<^verbatim>\<open>n = vector->length; power = a/b; df = params.tSampling/n/2.; data[0] = 0.;
  for (i = 1; i < n; i++) { f = i*df; data[i] = pow(f, power); }\<close>
\<close>

definition LALCreateVectorFreqPower ::
  "real list \<Rightarrow> InspiralTemplate \<Rightarrow> int \<Rightarrow> int \<Rightarrow> real list" where
  "LALCreateVectorFreqPower vector params a b =
     (let n = length vector;
          power = real_of_int a / real_of_int b;
          df = tSampling params / real n / 2
      in fold (\<lambda>i v. v[i := pow (real i * df) power]) [1..<n] (vector[0 := 0]))"

record BEPowerVector =
  fm5_3 :: "real list"
  fm2_3 :: "real list"
  fm7_6 :: "real list"
  fm1_2 :: "real list"

text \<open>
  \<^verbatim>\<open>BECreatePowerVector(status, powerVector, randIn, length)\<close> allocates four zeroed
  vectors of \<^verbatim>\<open>length / 2\<close> entries (\<^verbatim>\<open>LALCalloc\<close>) and fills each with
  \<^verbatim>\<open>LALCreateVectorFreqPower\<close>; \<open>param\<close> is \<^verbatim>\<open>randIn.param\<close>.
\<close>

definition BECreatePowerVector :: "InspiralTemplate \<Rightarrow> nat \<Rightarrow> BEPowerVector" where
  "BECreatePowerVector param length' =
     \<lparr> fm5_3 = LALCreateVectorFreqPower (replicate (length' div 2) 0) param (- 5) 3,
       fm2_3 = LALCreateVectorFreqPower (replicate (length' div 2) 0) param (- 2) 3,
       fm7_6 = LALCreateVectorFreqPower (replicate (length' div 2) 0) param (- 7) 6,
       fm1_2 = LALCreateVectorFreqPower (replicate (length' div 2) 0) param (- 1) 2 \<rparr>"

subsection \<open>Filter pair constructor\<close>

record BEMoments =
  a11 :: "real list"
  a21 :: "real list"
  a22 :: "real list"

text \<open>Subtraction on \<^verbatim>\<open>UINT4\<close>, for operands below \<open>2 ^ 32\<close>.\<close>

definition uint4_sub :: "nat \<Rightarrow> nat \<Rightarrow> nat" where
  "uint4_sub x y = (x + 2 ^ 32 - y) mod 2 ^ 32"

text \<open>
  The body of the second loop of \<^verbatim>\<open>LALCreateFilters\<close>, for one bin \<open>i\<close>. The source
  reuses the variable \<^verbatim>\<open>amplitude\<close> for the phase and for the two amplitudes.
\<close>

definition filter_bin ::
  "nat \<Rightarrow> BEPowerVector \<Rightarrow> real \<Rightarrow> real \<Rightarrow> real \<Rightarrow> real \<Rightarrow> real \<Rightarrow> nat
     \<Rightarrow> real list \<times> real list \<Rightarrow> real list \<times> real list" where
  "filter_bin n powerVector a11' a21' a22' psi0 psi3 i =
     (\<lambda>(FilterBCV1, FilterBCV2).
        let amplitude = psi0 * (fm5_3 powerVector ! i) + psi3 * (fm2_3 powerVector ! i);
            cos_phase = cos amplitude;
            sin_phase = sin amplitude;
            amplitude = a11' * (fm7_6 powerVector ! i);
            FilterBCV1 = (FilterBCV1[i := amplitude * cos_phase])[n - i := - amplitude * sin_phase];
            amplitude = a21' * (fm7_6 powerVector ! i) + a22' * (fm1_2 powerVector ! i);
            FilterBCV2 = (FilterBCV2[i := amplitude * cos_phase])[n - i := - amplitude * sin_phase]
        in (FilterBCV1, FilterBCV2))"

text \<open>
  \<^verbatim>\<open>LALCreateFilters\<close> writes both filters in place and returns nothing; the model
  returns the pair of filters. The first loop is
  \<^verbatim>\<open>for (i = 0; i < kMin-1; i++)\<close> with \<^verbatim>\<open>UINT4\<close> operands, the second
  \<^verbatim>\<open>for (i = kMin; i < nby2; i++)\<close>.
\<close>

definition LALCreateFilters ::
  "real list \<Rightarrow> real list \<Rightarrow> BEPowerVector \<Rightarrow> BEMoments \<Rightarrow> nat \<Rightarrow> nat \<Rightarrow> real \<Rightarrow> real
     \<Rightarrow> real list \<times> real list" where
  "LALCreateFilters FilterBCV1 FilterBCV2 powerVector moments kMin kMax psi0 psi3 =
     (let n = length FilterBCV1;
          nby2 = length FilterBCV1 div 2;
          a11' = a11 moments ! kMax;
          a22' = a22 moments ! kMax;
          a21' = a21 moments ! kMax;
          zeroed = fold (\<lambda>i (F1, F2). (F1[i := 0], F2[i := 0])) [0..<uint4_sub kMin 1]
                     (FilterBCV1, FilterBCV2)
      in fold (filter_bin n powerVector a11' a21' a22' psi0 psi3) [kMin..<nby2] zeroed)"

subsection \<open>Noise moment calculator\<close>

record REAL8FrequencySeries =
  f0 :: real
  deltaF :: real
  data :: "real list"

text \<open>
  Conversion of a non-negative \<^verbatim>\<open>REAL8\<close> to \<^verbatim>\<open>UINT4\<close> after \<^verbatim>\<open>floor\<close> (in
  \<^verbatim>\<open>LALCreateMomentVector\<close> through \<^verbatim>\<open>UINT8\<close>). Converting a negative value is
  undefined behaviour in C.
\<close>

definition uint4_of_real :: "real \<Rightarrow> nat" where
  "uint4_of_real x = nat \<lfloor>x\<rfloor> mod 2 ^ 32"

text \<open>
  \<^verbatim>\<open>kMin = (UINT8) floor((in.xmin - psd->f0) / psd->deltaF)\<close> with
  \<^verbatim>\<open>in.xmin = params->fLower\<close>, and the same for \<^verbatim>\<open>kMax\<close> with
  \<^verbatim>\<open>in.xmax = params->tSampling/2.\<close>; \<^verbatim>\<open>in.norm = 1./4.\<close> multiplied by
  \<^verbatim>\<open>tSampling * tSampling\<close>.
\<close>

definition moment_kMin :: "REAL8FrequencySeries \<Rightarrow> InspiralTemplate \<Rightarrow> nat" where
  "moment_kMin psd params = uint4_of_real ((fLower params - f0 psd) / deltaF psd)"

definition moment_kMax :: "REAL8FrequencySeries \<Rightarrow> InspiralTemplate \<Rightarrow> nat" where
  "moment_kMax psd params = uint4_of_real ((tSampling params / 2 - f0 psd) / deltaF psd)"

definition moment_norm :: "InspiralTemplate \<Rightarrow> real" where
  "moment_norm params = 1 / 4 * (tSampling params * tSampling params)"

text \<open>
  The guarded block of the accumulation loop: the three sums are advanced and the three
  arrays are written at \<open>k\<close>; \<^verbatim>\<open>a21\<close> reads back the entry of \<^verbatim>\<open>a22\<close> just written.
  Where the code divides by zero or takes the root of a negative number it stores an
  infinity or a NaN; the entry written here is then the value of the real operations
  (\<open>1 / 0 = 0\<close>) and stands for nothing. \<open>moment_entries\<close> below gives the stored
  entries with these cases made explicit.
\<close>

definition moment_accumulate ::
  "REAL8FrequencySeries \<Rightarrow> real \<Rightarrow> nat \<Rightarrow> real \<times> real \<times> real \<times> BEMoments
     \<Rightarrow> real \<times> real \<times> real \<times> BEMoments" where
  "moment_accumulate psd norm' k =
     (\<lambda>(m7, m5, m3, moments).
        let f = f0 psd + real k * deltaF psd;
            m7 = m7 + pow f (- (7 / 3)) / (data psd ! k) * deltaF psd / norm';
            m5 = m5 + pow f (- (5 / 3)) / (data psd ! k) * deltaF psd / norm';
            m3 = m3 + pow f (- 1) / (data psd ! k) * deltaF psd / norm';
            moments = moments\<lparr> a11 := (a11 moments)[k := 1 / sqrt m7] \<rparr>;
            moments = moments\<lparr> a22 := (a22 moments)[k := 1 / sqrt (m3 - m5 * m5 / m7)] \<rparr>;
            moments = moments\<lparr> a21 := (a21 moments)[k := - m5 / m7 * (a22 moments ! k)] \<rparr>
        in (m7, m5, m3, moments))"

text \<open>The loop body: \<^verbatim>\<open>if (psd->data->data[k]) { ... }\<close>.\<close>

definition moment_step ::
  "REAL8FrequencySeries \<Rightarrow> real \<Rightarrow> nat \<Rightarrow> real \<times> real \<times> real \<times> BEMoments
     \<Rightarrow> real \<times> real \<times> real \<times> BEMoments" where
  "moment_step psd norm' k st =
     (if data psd ! k \<noteq> 0 then moment_accumulate psd norm' k st else st)"

text \<open>The body of the first loop, which zeroes the three arrays at \<open>k\<close>.\<close>

definition moment_zero :: "nat \<Rightarrow> BEMoments \<Rightarrow> BEMoments" where
  "moment_zero k moments =
     moments\<lparr> a11 := (a11 moments)[k := 0], a21 := (a21 moments)[k := 0],
              a22 := (a22 moments)[k := 0] \<rparr>"

text \<open>The three \<^verbatim>\<open>LALCalloc\<close> calls: zeroed arrays of \<^verbatim>\<open>length / 2\<close> entries.\<close>

definition moment_alloc :: "nat \<Rightarrow> BEMoments" where
  "moment_alloc length' =
     \<lparr> a11 = replicate (length' div 2) 0, a21 = replicate (length' div 2) 0,
       a22 = replicate (length' div 2) 0 \<rparr>"

text \<open>
  The state \<open>(m7, m5, m3, moments)\<close> when the accumulation loop has run over the bins
  \<open>kMin, ..., k - 1\<close>; the function returns the arrays of the state at \<open>k = kMax\<close>.
\<close>

definition moment_loop ::
  "REAL8FrequencySeries \<Rightarrow> InspiralTemplate \<Rightarrow> nat \<Rightarrow> nat
     \<Rightarrow> real \<times> real \<times> real \<times> BEMoments" where
  "moment_loop psd params length' k =
     fold (moment_step psd (moment_norm params)) [moment_kMin psd params..<k]
       (0, 0, 0, fold moment_zero [0..<moment_kMin psd params] (moment_alloc length'))"

definition LALCreateMomentVector ::
  "REAL8FrequencySeries \<Rightarrow> InspiralTemplate \<Rightarrow> nat \<Rightarrow> BEMoments" where
  "LALCreateMomentVector psd params length' =
     (case moment_loop psd params length' (moment_kMax psd params) of
        (m7, m5, m3, moments) \<Rightarrow> moments)"

text \<open>
  The inputs on which every conversion and every array access of
  \<^verbatim>\<open>LALCreateMomentVector\<close> is defined in C: the two bin numbers are conversions of
  non-negative values in range, the zeroing loop stays inside the arrays, and the
  accumulation loop, when it runs, stays inside the arrays and the spectrum.
\<close>

definition moment_defined :: "REAL8FrequencySeries \<Rightarrow> InspiralTemplate \<Rightarrow> nat \<Rightarrow> bool" where
  "moment_defined psd params length' \<longleftrightarrow>
     deltaF psd \<noteq> 0
     \<and> 0 \<le> (fLower params - f0 psd) / deltaF psd
     \<and> (fLower params - f0 psd) / deltaF psd < 2 ^ 64
     \<and> 0 \<le> (tSampling params / 2 - f0 psd) / deltaF psd
     \<and> (tSampling params / 2 - f0 psd) / deltaF psd < 2 ^ 64
     \<and> moment_kMin psd params \<le> length' div 2
     \<and> (moment_kMin psd params < moment_kMax psd params \<longrightarrow>
          moment_kMax psd params \<le> length' div 2
          \<and> moment_kMax psd params \<le> length (data psd))"

subsection \<open>Infinities and NaN in the moment entries\<close>







subsection \<open>The moment invariant in the words of the specification\<close>












subsection \<open>Overlap maximizer\<close>

text \<open>
  The two ways \<^verbatim>\<open>LALWaveOverlapBCV\<close> ends without a result: an early return through
  \<^verbatim>\<open>CHECKSTATUSPTR\<close> after a failed correlation, and the fallback branch of the sector
  decision, which prints \<^verbatim>\<open>"must not enter here"\<close> with \<^verbatim>\<open>thetav\<close> and \<^verbatim>\<open>thetab\<close> on
  \<^verbatim>\<open>stderr\<close> and calls \<^verbatim>\<open>exit(0)\<close>.
\<close>

datatype failure =
    StatusError
  | MustNotEnterHere real real

text \<open>
  The input of \<^verbatim>\<open>LALInspiralWaveCorrelate\<close> and of \<^verbatim>\<open>LALWaveOverlapBCV\<close>, without the
  FFT plans. Both structures have a field \<^verbatim>\<open>psd\<close> in the source.
\<close>

record InspiralWaveCorrelateIn =
  fCutoff :: real
  samplingRate :: real
  df :: real
  psd_corr :: "real list"
  signal1 :: "real list"
  signal2 :: "real list"

record InspiralWaveOverlapIn =
  nBegin :: nat
  nEnd :: nat
  psd_in :: "real list"
  signal :: "real list"
  param :: InspiralTemplate

datatype AlphaFConstraintChoice = ALPHAFConstraint | ALPHAFUnconstraint

record OtherParamIn =
  alphaFConstraint :: AlphaFConstraintChoice
  printBestOverlap :: bool
  printSNRHisto :: bool
  extraFinalPrinting :: bool

definition LAL_PI :: real where
  "LAL_PI = pi"

text \<open>\<^verbatim>\<open>atan2\<close> of \<^verbatim>\<open>math.h\<close> on the reals.\<close>

definition atan2 :: "real \<Rightarrow> real \<Rightarrow> real" where
  "atan2 y x =
     (if 0 < x then arctan (y / x)
      else if x < 0 then (if 0 \<le> y then arctan (y / x) + pi else arctan (y / x) - pi)
      else if 0 < y then pi / 2
      else if y < 0 then - (pi / 2)
      else 0)"

text \<open>
  The sector decision of the sample loop: the value assigned to \<^verbatim>\<open>rhoConstraint\<close>, or
  the failure of the fallback branch. \<^verbatim>\<open>1e-4\<close> is \<open>1 / 10000\<close>.
\<close>

definition rho_constraint ::
  "real \<Rightarrow> real \<Rightarrow> real \<Rightarrow> real \<Rightarrow> real \<Rightarrow> real \<Rightarrow> failure + real" where
  "rho_constraint thetab thetav V0 V1 V2 rhoUnconstraint =
     (if thetab \<ge> 0 then
        (if 0 \<le> thetav \<and> thetav \<le> 2 * thetab then Inr rhoUnconstraint
         else if thetab - LAL_PI \<le> thetav \<and> thetav < 0 then Inr (sqrt ((V0 + V1) / 2))
         else if (2 * thetab < thetav \<and> thetav \<le> LAL_PI + 1 / 10000)
               \<or> (- LAL_PI - 1 / 10000 \<le> thetav \<and> thetav < - LAL_PI + thetab)
           then Inr (sqrt ((V0 + V1 * cos (2 * thetab) + V2 * sin (2 * thetab)) / 2))
         else Inl (MustNotEnterHere thetav thetab))
      else
        (if 2 * thetab \<le> thetav \<and> thetav \<le> 0 then Inr rhoUnconstraint
         else if 0 < thetav \<and> thetav \<le> LAL_PI + thetab then Inr (sqrt ((V0 + V1) / 2))
         else if (- LAL_PI - 1 / 10000 \<le> thetav \<and> thetav < 2 * thetab)
               \<or> (LAL_PI + thetab \<le> thetav \<and> thetav \<le> LAL_PI + 1 / 10000)
           then Inr (sqrt ((V0 + V1 * cos (2 * thetab) + V2 * sin (2 * thetab)) / 2))
         else Inl (MustNotEnterHere thetav thetab)))"

text \<open>
  The local variables of \<^verbatim>\<open>LALWaveOverlapBCV\<close> that the sample loop updates, with the
  output vector \<^verbatim>\<open>correlation\<close>. The arrays that are only written to files
  (\<^verbatim>\<open>rho1\<close>, \<^verbatim>\<open>rho2\<close>, \<^verbatim>\<open>rho3\<close>, \<^verbatim>\<open>v0\<close>, \<^verbatim>\<open>v1\<close>, \<^verbatim>\<open>v2\<close>, \<^verbatim>\<open>phaseV\<close>, \<^verbatim>\<open>template\<close>)
  are left out.
\<close>

record overlap_vars =
  rhoMaxConstraint :: real
  alphaConstraint :: real
  phaseConstraint :: real
  rhoMaxUnconstraint :: real
  rhoBinUnconstraint :: int
  rhoBinConstraint :: int
  alphaUnconstraint :: real
  phaseUnconstraint :: real
  correlation_v :: "real list"

text \<open>
  The quantities of one sample, from the four correlation values at that sample:
  \<^verbatim>\<open>V0 = x1_2 + x2_2 + x3_2 + x4_2; V1 = x1_2 + x3_2 - x2_2 - x4_2;
  V2 = 2*(x1*x2 + x3*x4); rhoUnconstraint = sqrt((V0 + sqrt(V1*V1+V2*V2))/2.);\<close>
  These four functions are the values of the expressions in exact arithmetic. The code
  forms them in \<^verbatim>\<open>REAL4\<close>; the last subsection of the embedding evaluates them with the
  roundings of the code.
\<close>

definition sample_V0 :: "real \<Rightarrow> real \<Rightarrow> real \<Rightarrow> real \<Rightarrow> real" where
  "sample_V0 x1 x2 x3 x4 =
     (let x1_2 = x1 * x1; x2_2 = x2 * x2; x3_2 = x3 * x3; x4_2 = x4 * x4
      in x1_2 + x2_2 + x3_2 + x4_2)"

definition sample_V1 :: "real \<Rightarrow> real \<Rightarrow> real \<Rightarrow> real \<Rightarrow> real" where
  "sample_V1 x1 x2 x3 x4 =
     (let x1_2 = x1 * x1; x2_2 = x2 * x2; x3_2 = x3 * x3; x4_2 = x4 * x4
      in x1_2 + x3_2 - x2_2 - x4_2)"

definition sample_V2 :: "real \<Rightarrow> real \<Rightarrow> real \<Rightarrow> real \<Rightarrow> real" where
  "sample_V2 x1 x2 x3 x4 = 2 * (x1 * x2 + x3 * x4)"

definition sample_rhoUnconstraint :: "real \<Rightarrow> real \<Rightarrow> real \<Rightarrow> real \<Rightarrow> real" where
  "sample_rhoUnconstraint x1 x2 x3 x4 =
     (let V0 = sample_V0 x1 x2 x3 x4; V1 = sample_V1 x1 x2 x3 x4; V2 = sample_V2 x1 x2 x3 x4
      in sqrt ((V0 + sqrt (V1 * V1 + V2 * V2)) / 2))"

text \<open>
  The part of the loop body after the sector decision: the entry of \<^verbatim>\<open>correlation\<close>
  (written only when \<^verbatim>\<open>printBestOverlap\<close> or \<^verbatim>\<open>printSNRHisto\<close> is set), the running
  constrained maximum, and the running unconstrained maximum under \<^verbatim>\<open>alphaFU <= 1\<close>.
  When the denominator \<^verbatim>\<open>a11 + a21*tan(.5*thetav)\<close> is zero the code has an infinity or
  a NaN for the quotient (a NaN fails \<^verbatim>\<open>alphaFU <= 1\<close>); the quotient of the reals is \<open>0\<close>
  there.
\<close>

definition sample_update ::
  "OtherParamIn \<Rightarrow> real \<Rightarrow> real \<Rightarrow> real \<Rightarrow> real \<Rightarrow> real \<Rightarrow> real \<Rightarrow> real \<Rightarrow> nat
     \<Rightarrow> overlap_vars \<Rightarrow> overlap_vars" where
  "sample_update otherIn a11' a21' a22' fp23 rhoUnconstraint thetav rhoConstraint i s =
     (let s = (if alphaFConstraint otherIn = ALPHAFConstraint
               then (if printBestOverlap otherIn \<or> printSNRHisto otherIn
                     then s\<lparr> correlation_v := (correlation_v s)[i := rhoConstraint] \<rparr>
                     else s)
               else (if printBestOverlap otherIn \<or> printSNRHisto otherIn
                     then (let alphaFU = - (a22' * tan (thetav / 2))
                                          / (a11' + a21' * tan (thetav / 2)) * fp23
                           in if alphaFU \<le> 1
                              then s\<lparr> correlation_v := (correlation_v s)[i := rhoUnconstraint] \<rparr>
                              else s\<lparr> correlation_v := (correlation_v s)[i := - 1] \<rparr>)
                     else s));
          s = (if rhoConstraint > rhoMaxConstraint s
               then s\<lparr> rhoMaxConstraint := rhoConstraint,
                       rhoBinConstraint := int i,
                       phaseConstraint := thetav / 2,
                       alphaConstraint := - (a22' * tan (thetav / 2))
                                            / (a11' + a21' * tan (thetav / 2)) \<rparr>
               else s);
          alphaFU = - (a22' * tan (thetav / 2)) / (a11' + a21' * tan (thetav / 2)) * fp23
      in (if rhoUnconstraint > rhoMaxUnconstraint s \<and> alphaFU \<le> 1
          then s\<lparr> rhoMaxUnconstraint := rhoUnconstraint,
                  rhoBinUnconstraint := int i,
                  phaseUnconstraint := thetav / 2,
                  alphaUnconstraint := - (a22' * tan (thetav / 2))
                                         / (a11' + a21' * tan (thetav / 2)) \<rparr>
          else s))"

text \<open>
  The loop body from the sector decision on, for given \<^verbatim>\<open>thetav\<close>: the fallback branch
  leaves the program, every other branch continues with \<open>sample_update\<close>.
\<close>

definition sample_sector ::
  "OtherParamIn \<Rightarrow> real \<Rightarrow> real \<Rightarrow> real \<Rightarrow> real \<Rightarrow> real \<Rightarrow> real \<Rightarrow> real \<Rightarrow> real \<Rightarrow> real
     \<Rightarrow> real \<Rightarrow> nat \<Rightarrow> overlap_vars \<Rightarrow> failure + overlap_vars" where
  "sample_sector otherIn thetab a11' a21' a22' fp23 V0 V1 V2 rhoUnconstraint thetav i s =
     (case rho_constraint thetab thetav V0 V1 V2 rhoUnconstraint of
        Inl e \<Rightarrow> Inl e
      | Inr rhoConstraint \<Rightarrow>
          Inr (sample_update otherIn a11' a21' a22' fp23 rhoUnconstraint thetav rhoConstraint i s))"

text \<open>The whole loop body for sample \<open>i\<close>, with \<^verbatim>\<open>thetav = atan2(V2, V1)\<close>.\<close>

definition overlap_sample ::
  "OtherParamIn \<Rightarrow> real \<Rightarrow> real \<Rightarrow> real \<Rightarrow> real \<Rightarrow> real
     \<Rightarrow> real list \<Rightarrow> real list \<Rightarrow> real list \<Rightarrow> real list
     \<Rightarrow> nat \<Rightarrow> overlap_vars \<Rightarrow> failure + overlap_vars" where
  "overlap_sample otherIn thetab a11' a21' a22' fp23 x1 x2 x3 x4 i s =
     (let V0 = sample_V0 (x1 ! i) (x2 ! i) (x3 ! i) (x4 ! i);
          V1 = sample_V1 (x1 ! i) (x2 ! i) (x3 ! i) (x4 ! i);
          V2 = sample_V2 (x1 ! i) (x2 ! i) (x3 ! i) (x4 ! i);
          rhoUnconstraint = sample_rhoUnconstraint (x1 ! i) (x2 ! i) (x3 ! i) (x4 ! i);
          thetav = atan2 V2 V1
      in sample_sector otherIn thetab a11' a21' a22' fp23 V0 V1 V2 rhoUnconstraint thetav i s)"

text \<open>The loop over the samples; it stops at the first sample that leaves the program.\<close>

fun overlap_scan ::
  "(nat \<Rightarrow> overlap_vars \<Rightarrow> failure + overlap_vars) \<Rightarrow> nat list \<Rightarrow> overlap_vars
     \<Rightarrow> failure + overlap_vars" where
  "overlap_scan body [] s = Inr s"
| "overlap_scan body (i # is) s =
     (case body i s of Inl e \<Rightarrow> Inl e | Inr s' \<Rightarrow> overlap_scan body is s')"

text \<open>
  The structure \<^verbatim>\<open>corrin\<close> handed to \<^verbatim>\<open>LALInspiralWaveCorrelate\<close>, for the filter
  assigned to \<^verbatim>\<open>corrin.signal2\<close>.
\<close>

definition corrin_of :: "InspiralWaveOverlapIn \<Rightarrow> real list \<Rightarrow> InspiralWaveCorrelateIn" where
  "corrin_of overlapin filter' =
     \<lparr> fCutoff = fFinal (param overlapin),
       samplingRate = tSampling (param overlapin),
       df = tSampling (param overlapin) / real (length (signal overlapin)),
       psd_corr = psd_in overlapin,
       signal1 = signal overlapin,
       signal2 = filter' \<rparr>"

text \<open>
  \<^verbatim>\<open>df = tSampling / (REAL8)(n/2.) / 2.; k = floor(fFinal / df);\<close> and
  \<^verbatim>\<open>thetab = atan(-(a11 * alphaMax)/(a22+a21*alphaMax))\<close>. The code keeps \<^verbatim>\<open>df\<close> in a
  \<^verbatim>\<open>REAL4\<close> variable, so that its \<^verbatim>\<open>k\<close> is the floor of the quotient by the rounded
  \<^verbatim>\<open>df\<close>; here \<^verbatim>\<open>df\<close> is exact. When the denominator of \<^verbatim>\<open>thetab\<close> is zero the code has
  \<open>\<plusminus>pi/2\<close> (from an infinity) or a NaN (from \<^verbatim>\<open>0/0\<close>); the properties below that
  concern \<^verbatim>\<open>thetab\<close> assume a non-zero denominator.
\<close>

definition overlap_k :: "InspiralWaveOverlapIn \<Rightarrow> nat \<Rightarrow> nat" where
  "overlap_k overlapin n =
     (let df = tSampling (param overlapin) / (real n / 2) / 2
      in uint4_of_real (fFinal (param overlapin) / df))"

definition overlap_thetab :: "real \<Rightarrow> real \<Rightarrow> real \<Rightarrow> real \<Rightarrow> real" where
  "overlap_thetab a11' a21' a22' alphaMax =
     (let thetab = - (a11' * alphaMax) / (a22' + a21' * alphaMax) in arctan thetab)"

text \<open>
  The loop of the final printing block that overwrites \<^verbatim>\<open>correlation\<close>, for one index.
\<close>

definition final_correlation ::
  "real \<Rightarrow> real \<Rightarrow> real list \<Rightarrow> real list \<Rightarrow> real list \<Rightarrow> real list \<Rightarrow> nat \<Rightarrow> real list
     \<Rightarrow> real list" where
  "final_correlation phase' phi x1 x2 x3 x4 i correlation =
     (let cphase = cos phase';
          cphi = cos phi;
          sphase = sqrt (1 - cphase * cphase);
          sphi = sqrt (1 - cphi * cphi)
      in correlation[i := x1 ! i * cphase * cphi + x2 ! i * sphase * cphi
                          + x3 ! i * cphase * sphi + x4 ! i * sphase * sphi])"

text \<open>
  \<^verbatim>\<open>LALWaveOverlapBCV\<close>. \<^verbatim>\<open>LALInspiralWaveCorrelate\<close> is a LAL library function; it is
  a parameter of the model and returns whether it succeeded together with the output
  vector, and it does not write to its input. The first three correlations are followed
  by \<^verbatim>\<open>CHECKSTATUSPTR\<close>, the fourth is not. The model returns the five objects the
  function writes through its pointers: \<^verbatim>\<open>correlation\<close>, \<^verbatim>\<open>overlapin\<close>, the two
  filters and \<^verbatim>\<open>OverlapOutput\<close>.
\<close>

definition LALWaveOverlapBCV ::
  "(InspiralWaveCorrelateIn \<Rightarrow> bool \<times> real list)
     \<Rightarrow> real list \<Rightarrow> InspiralWaveOverlapIn \<Rightarrow> real list \<Rightarrow> real list \<Rightarrow> OtherParamIn
     \<Rightarrow> OverlapOutputIn \<Rightarrow> BEMoments
     \<Rightarrow> failure + (real list \<times> InspiralWaveOverlapIn \<times> real list \<times> real list \<times> OverlapOutputIn)" where
  "LALWaveOverlapBCV LALInspiralWaveCorrelate correlation overlapin FilterBCV1 FilterBCV2 otherIn
       OverlapOutput moments =
     (let BestPhase = 0;
          n = length correlation;
          overlapin = overlapin\<lparr> param := (param overlapin)\<lparr> nStartPad := 0, startPhase := 0 \<rparr> \<rparr>;
          (ok1, x1) = LALInspiralWaveCorrelate (corrin_of overlapin FilterBCV1)
      in if \<not> ok1 then Inl StatusError else
         let FilterBCV1 = LALGetOrthogonalFilterBCV2 FilterBCV1;
             (ok3, x3) = LALInspiralWaveCorrelate (corrin_of overlapin FilterBCV1)
         in if \<not> ok3 then Inl StatusError else
         let (ok2, x2) = LALInspiralWaveCorrelate (corrin_of overlapin FilterBCV2)
         in if \<not> ok2 then Inl StatusError else
         let FilterBCV2 = LALGetOrthogonalFilterBCV2 FilterBCV2;
             (ok4, x4) = LALInspiralWaveCorrelate (corrin_of overlapin FilterBCV2);
             nBegin' = nBegin overlapin;
             nEnd' = uint4_sub (length FilterBCV1) (nEnd overlapin);
             k = overlap_k overlapin n;
             a11' = a11 moments ! k;
             a22' = a22 moments ! k;
             a21' = a21 moments ! k;
             fm23 = pow (fFinal (param overlapin)) (- (2 / 3));
             fp23 = pow (fFinal (param overlapin)) (2 / 3);
             alphaMax = fm23;
             thetab = overlap_thetab a11' a21' a22' alphaMax
         in case overlap_scan (overlap_sample otherIn thetab a11' a21' a22' fp23 x1 x2 x3 x4)
                   [nBegin'..<nEnd']
                   \<lparr> rhoMaxConstraint = 0, alphaConstraint = 0, phaseConstraint = 0,
                     rhoMaxUnconstraint = 0, rhoBinUnconstraint = 0, rhoBinConstraint = 0,
                     alphaUnconstraint = 0, phaseUnconstraint = 0,
                     correlation_v = correlation \<rparr> of
              Inl e \<Rightarrow> Inl e
            | Inr s \<Rightarrow>
               (let OverlapOutput = OverlapOutput
                      \<lparr> rhoMax := rhoMaxConstraint s,
                        rhoBin := rhoBinConstraint s,
                        alpha := alphaConstraint s,
                        phase := phaseConstraint s,
                        rhoMaxU := rhoMaxUnconstraint s,
                        rhoBinU := rhoBinUnconstraint s,
                        alphaU := alphaUnconstraint s,
                        phaseU := phaseUnconstraint s \<rparr>;
                    correlation = correlation_v s
                in if (extraFinalPrinting otherIn \<and> printBestOverlap otherIn)
                   then Inr (fold (final_correlation BestPhase (startPhase (param overlapin)) x1 x2 x3 x4)
                               [0..<length correlation] correlation,
                             overlapin,
                             LALGetOrthogonalFilterBCV2 FilterBCV1,
                             LALGetOrthogonalFilterBCV2 FilterBCV2,
                             OverlapOutput)
                   else Inr (correlation, overlapin, FilterBCV1, FilterBCV2, OverlapOutput)))"

subsection \<open>The quantities of one sample in REAL4 arithmetic\<close>

text \<open>
  The sample loop keeps \<^verbatim>\<open>x1_2\<close>, \<^verbatim>\<open>x2_2\<close>, \<^verbatim>\<open>x3_2\<close>, \<^verbatim>\<open>x4_2\<close>, \<^verbatim>\<open>V0\<close>, \<^verbatim>\<open>V1\<close>,
  \<^verbatim>\<open>V2\<close>, \<^verbatim>\<open>thetav\<close>, \<^verbatim>\<open>thetab\<close>, \<^verbatim>\<open>rhoUnconstraint\<close> and \<^verbatim>\<open>rhoConstraint\<close> in
  \<^verbatim>\<open>REAL4\<close> variables, and the correlations \<^verbatim>\<open>x1\<close>, ..., \<^verbatim>\<open>x4\<close> are \<^verbatim>\<open>REAL4\<close> vectors.
  This subsection evaluates the expressions of the loop body as IEEE 754 arithmetic
  does: an operation on two \<^verbatim>\<open>REAL4\<close> operands (an \<^verbatim>\<open>int\<close> constant is converted to the
  type of the other operand) is rounded to \<^verbatim>\<open>REAL4\<close>; an operation with a \<^verbatim>\<open>REAL8\<close>
  operand, which are the constants \<^verbatim>\<open>2.\<close>, \<^verbatim>\<open>LAL_PI\<close>, \<^verbatim>\<open>1e-4\<close> and the results of
  \<^verbatim>\<open>sqrt\<close>, \<^verbatim>\<open>cos\<close>, \<^verbatim>\<open>sin\<close> and \<^verbatim>\<open>atan2\<close>, is rounded to \<^verbatim>\<open>REAL8\<close>; an assignment to
  a \<^verbatim>\<open>REAL4\<close> variable rounds to \<^verbatim>\<open>REAL4\<close>.

  Rounding is to nearest, ties to even. \<open>round_even\<close> rounds a real to an integer;
  \<open>ieee_round p emin\<close> rounds to the binary format with \<open>p\<close> significand bits and
  least normal exponent \<open>emin\<close>, with gradual underflow: the result is a multiple of
  \<open>2 ^ (e - p + 1)\<close>, where \<open>e\<close> is the exponent of the argument but not less than \<open>emin\<close>.
  Overflow to an infinity is left out, so the function is the rounding of the format
  for arguments below its largest finite number. Every operation is rounded on its own
  (no fused multiply-add, no evaluation in a wider format), the two zeros are not
  distinguished, and the functions of \<^verbatim>\<open>math.h\<close> are taken to return the rounded exact
  value.
\<close>

definition round_even :: "real \<Rightarrow> int" where
  "round_even q =
     (let n = \<lfloor>q\<rfloor>; d = q - of_int n
      in if d < 1 / 2 then n else if 1 / 2 < d then n + 1 else if even n then n else n + 1)"

definition ieee_round :: "nat \<Rightarrow> int \<Rightarrow> real \<Rightarrow> real" where
  "ieee_round p emin x =
     (if x = 0 then 0
      else let e = max \<lfloor>log 2 \<bar>x\<bar>\<rfloor> emin;
               ulp = 2 powr of_int (e - int p + 1)
           in of_int (round_even (x / ulp)) * ulp)"

definition to_REAL4 :: "real \<Rightarrow> real" where
  "to_REAL4 x = ieee_round 24 (- 126) x"

definition to_REAL8 :: "real \<Rightarrow> real" where
  "to_REAL8 x = ieee_round 53 (- 1022) x"

text \<open>
  \<^verbatim>\<open>x1_2 = x1 * x1; ... V0 = x1_2 + x2_2 + x3_2 + x4_2; V1 = x1_2 + x3_2 - x2_2 - x4_2;
  V2 = 2*(x1*x2 + x3*x4);\<close> with every product, sum and difference rounded to \<^verbatim>\<open>REAL4\<close>.
\<close>

definition sample_V0_REAL4 :: "real \<Rightarrow> real \<Rightarrow> real \<Rightarrow> real \<Rightarrow> real" where
  "sample_V0_REAL4 x1 x2 x3 x4 =
     (let x1_2 = to_REAL4 (x1 * x1); x2_2 = to_REAL4 (x2 * x2);
          x3_2 = to_REAL4 (x3 * x3); x4_2 = to_REAL4 (x4 * x4)
      in to_REAL4 (to_REAL4 (to_REAL4 (x1_2 + x2_2) + x3_2) + x4_2))"

definition sample_V1_REAL4 :: "real \<Rightarrow> real \<Rightarrow> real \<Rightarrow> real \<Rightarrow> real" where
  "sample_V1_REAL4 x1 x2 x3 x4 =
     (let x1_2 = to_REAL4 (x1 * x1); x2_2 = to_REAL4 (x2 * x2);
          x3_2 = to_REAL4 (x3 * x3); x4_2 = to_REAL4 (x4 * x4)
      in to_REAL4 (to_REAL4 (to_REAL4 (x1_2 + x3_2) - x2_2) - x4_2))"

definition sample_V2_REAL4 :: "real \<Rightarrow> real \<Rightarrow> real \<Rightarrow> real \<Rightarrow> real" where
  "sample_V2_REAL4 x1 x2 x3 x4 =
     to_REAL4 (2 * to_REAL4 (to_REAL4 (x1 * x2) + to_REAL4 (x3 * x4)))"

text \<open>
  \<^verbatim>\<open>rhoUnconstraint = sqrt((V0 + sqrt(V1*V1+V2*V2))/2.)\<close>: the argument of the inner
  \<^verbatim>\<open>sqrt\<close> is formed in \<^verbatim>\<open>REAL4\<close>, everything outside it in \<^verbatim>\<open>REAL8\<close>, and the result
  is stored in \<^verbatim>\<open>REAL4\<close>. \<^verbatim>\<open>thetav = atan2(V2,V1)\<close> is stored in \<^verbatim>\<open>REAL4\<close>.
\<close>

definition rhoUnconstraint_REAL4 :: "real \<Rightarrow> real \<Rightarrow> real \<Rightarrow> real" where
  "rhoUnconstraint_REAL4 V0 V1 V2 =
     to_REAL4 (to_REAL8 (sqrt (to_REAL8 (to_REAL8 (V0
        + to_REAL8 (sqrt (to_REAL4 (to_REAL4 (V1 * V1) + to_REAL4 (V2 * V2))))) / 2))))"

definition thetav_REAL4 :: "real \<Rightarrow> real \<Rightarrow> real" where
  "thetav_REAL4 V1 V2 = to_REAL4 (to_REAL8 (atan2 V2 V1))"

text \<open>
  The sector decision on \<^verbatim>\<open>REAL4\<close> values. \<^verbatim>\<open>2*thetab\<close> is a \<^verbatim>\<open>REAL4\<close> product; the
  bounds with \<^verbatim>\<open>LAL_PI\<close> and \<^verbatim>\<open>1e-4\<close> are \<^verbatim>\<open>REAL8\<close> sums of the two rounded constants;
  in \<^verbatim>\<open>sqrt((V0 + V1)/2.)\<close> the sum is a \<^verbatim>\<open>REAL4\<close> sum, and in
  \<^verbatim>\<open>sqrt((V0+V1*cos(2*thetab)+V2*sin(2*thetab))/2.)\<close> the products and sums are
  \<^verbatim>\<open>REAL8\<close> operations.
\<close>

definition rho_constraint_REAL4 ::
  "real \<Rightarrow> real \<Rightarrow> real \<Rightarrow> real \<Rightarrow> real \<Rightarrow> real \<Rightarrow> failure + real" where
  "rho_constraint_REAL4 thetab thetav V0 V1 V2 rhoUnconstraint =
     (let LAL_PI8 = to_REAL8 pi;
          eps = to_REAL8 (1 / 10000);
          thetab2 = to_REAL4 (2 * thetab);
          rho2 = to_REAL4 (to_REAL8 (sqrt (to_REAL8 (to_REAL4 (V0 + V1) / 2))));
          rho3 = to_REAL4 (to_REAL8 (sqrt (to_REAL8 (to_REAL8 (to_REAL8 (V0
                   + to_REAL8 (V1 * to_REAL8 (cos thetab2)))
                   + to_REAL8 (V2 * to_REAL8 (sin thetab2))) / 2))))
      in if thetab \<ge> 0 then
           (if 0 \<le> thetav \<and> thetav \<le> thetab2 then Inr rhoUnconstraint
            else if to_REAL8 (thetab - LAL_PI8) \<le> thetav \<and> thetav < 0 then Inr rho2
            else if (thetab2 < thetav \<and> thetav \<le> to_REAL8 (LAL_PI8 + eps))
                  \<or> (to_REAL8 (- LAL_PI8 - eps) \<le> thetav \<and> thetav < to_REAL8 (- LAL_PI8 + thetab))
              then Inr rho3
            else Inl (MustNotEnterHere thetav thetab))
         else
           (if thetab2 \<le> thetav \<and> thetav \<le> 0 then Inr rhoUnconstraint
            else if 0 < thetav \<and> thetav \<le> to_REAL8 (LAL_PI8 + thetab) then Inr rho2
            else if (to_REAL8 (- LAL_PI8 - eps) \<le> thetav \<and> thetav < thetab2)
                  \<or> (to_REAL8 (LAL_PI8 + thetab) \<le> thetav \<and> thetav \<le> to_REAL8 (LAL_PI8 + eps))
              then Inr rho3
            else Inl (MustNotEnterHere thetav thetab)))"

text \<open>
  The two stored values of one sample, from the four correlation values and \<^verbatim>\<open>thetab\<close>.
\<close>

definition sample_rhoUnconstraint_REAL4 :: "real \<Rightarrow> real \<Rightarrow> real \<Rightarrow> real \<Rightarrow> real" where
  "sample_rhoUnconstraint_REAL4 x1 x2 x3 x4 =
     rhoUnconstraint_REAL4 (sample_V0_REAL4 x1 x2 x3 x4) (sample_V1_REAL4 x1 x2 x3 x4)
       (sample_V2_REAL4 x1 x2 x3 x4)"

definition sample_rhoConstraint_REAL4 ::
  "real \<Rightarrow> real \<Rightarrow> real \<Rightarrow> real \<Rightarrow> real \<Rightarrow> failure + real" where
  "sample_rhoConstraint_REAL4 thetab x1 x2 x3 x4 =
     (let V0 = sample_V0_REAL4 x1 x2 x3 x4;
          V1 = sample_V1_REAL4 x1 x2 x3 x4;
          V2 = sample_V2_REAL4 x1 x2 x3 x4;
          rhoUnconstraint = rhoUnconstraint_REAL4 V0 V1 V2;
          thetav = thetav_REAL4 V1 V2
      in rho_constraint_REAL4 thetab thetav V0 V1 V2 rhoUnconstraint)"

section \<open>Properties\<close>

subsection \<open>Best-match tracker\<close>

text \<open>
  C8. The merge replaces the constrained sub-record (rhoMax, phase, alpha, rhoBin, freq,
  layer, templateNumber) by the candidate's exactly when the candidate's constrained SNR
  is strictly greater than the current best's, and leaves every field of it unchanged
  otherwise; independently, the same holds for the unconstrained sub-record and the
  unconstrained SNR. A sub-record is either taken whole from the candidate or kept whole.
\<close>

theorem KeepHighestValues_merge:
  "constrained_part (KeepHighestValues c b) =
     (if rhoMax c > rhoMax b then constrained_part c else constrained_part b)
   \<and> unconstrained_part (KeepHighestValues c b) =
     (if rhoMaxU c > rhoMaxU b then unconstrained_part c else unconstrained_part b)"
  by (simp add: KeepHighestValues_def constrained_part_def unconstrained_part_def Let_def)

subsection \<open>Orthogonalizer\<close>

lemma length_orthogonal_swap [simp]: "length (orthogonal_swap n i d) = length d"
  by (simp add: orthogonal_swap_def Let_def)

lemma length_fold_orthogonal_swap [simp]: "length (fold (orthogonal_swap n) ks d) = length d"
  by (induction ks arbitrary: d) simp_all

lemma length_LALGetOrthogonalFilterBCV2 [simp]:
  "length (LALGetOrthogonalFilterBCV2 f) = length f"
  by (simp add: LALGetOrthogonalFilterBCV2_def Let_def)

text \<open>The loop run up to \<open>m\<close>: what each entry holds, in terms of the entries at entry.\<close>

lemma fold_orthogonal_swap_nth:
  assumes "m \<le> length d div 2" "j < length d" "n = length d"
  shows "fold (orthogonal_swap n) [1..<m] d ! j =
     (if 1 \<le> j \<and> j < m then - (d ! (n - j))
      else if n - m < j \<and> j < n then d ! (n - j)
      else d ! j)"
  using assms
proof (induction m arbitrary: j)
  case 0
  then show ?case by simp
next
  case (Suc m)
  show ?case
  proof (cases "m = 0")
    case True
    then show ?thesis using Suc.prems by auto
  next
    case False
    then have up: "[1..<Suc m] = [1..<m] @ [m]" by simp
    let ?e = "fold (orthogonal_swap n) [1..<m] d"
    have IH: "?e ! j = (if 1 \<le> j \<and> j < m then - (d ! (n - j))
      else if n - m < j \<and> j < n then d ! (n - j)
      else d ! j)" if "j < length d" for j
      using Suc.IH[OF _ that] Suc.prems by simp
    have m2: "2 * m < n" "m < n" "n - m < n" "m \<noteq> n - m" "\<not> n - m < m"
      "\<not> n - m < n - m" "n - (n - m) = m"
      using Suc.prems False by auto
    have len: "length ?e = n" using Suc.prems by simp
    have step: "fold (orthogonal_swap n) [1..<Suc m] d
        = (?e[m := - (?e ! (n - m))])[n - m := ?e ! m]"
      unfolding up by (simp add: orthogonal_swap_def Let_def)
    have em: "?e ! m = d ! m" using IH[of m] m2 Suc.prems by simp
    have enm: "?e ! (n - m) = d ! (n - m)" using IH[of "n - m"] m2 Suc.prems by simp
    show ?thesis
      unfolding step em enm
      using Suc.prems(2,3) m2 False len IH[of j]
      by (auto simp add: nth_list_update)
  qed
qed

lemma LALGetOrthogonalFilterBCV2_nth:
  assumes "j < length f"
  shows "LALGetOrthogonalFilterBCV2 f ! j =
     (if 1 \<le> j \<and> j < length f div 2 then - (f ! (length f - j))
      else if length f - length f div 2 < j then f ! (length f - j)
      else f ! j)"
  using fold_orthogonal_swap_nth[of "length f div 2" f j "length f"] assms
  by (simp add: LALGetOrthogonalFilterBCV2_def Let_def)

lemma LALGetOrthogonalFilterBCV2_twice_nth:
  assumes "j < length f"
  shows "LALGetOrthogonalFilterBCV2 (LALGetOrthogonalFilterBCV2 f) ! j =
     (if swapped_index (length f) j then - (f ! j) else f ! j)"
  using assms
  apply (simp add: LALGetOrthogonalFilterBCV2_nth swapped_index_def)
  apply (auto simp add: LALGetOrthogonalFilterBCV2_nth)
  done

text \<open>
  C5, as stated: applying the orthogonalizer twice gives the filter back up to sign, at
  every index including \<open>0\<close> and \<open>N/2\<close>. For the filter \<open>[1, 2, 3, 4]\<close> the second
  application returns \<open>[1, -2, 3, -4]\<close>, which is neither the filter nor its negation:
  the entries at \<open>0\<close> and \<open>N/2\<close> keep their sign while the swapped entries change it.
\<close>

theorem orthogonalizer_twice_counterexample:
  "LALGetOrthogonalFilterBCV2 (LALGetOrthogonalFilterBCV2 [1, 2, 3, 4]) \<noteq> [1, 2, 3, 4]
   \<and> LALGetOrthogonalFilterBCV2 (LALGetOrthogonalFilterBCV2 [1, 2, 3, 4])
       \<noteq> map uminus [1, 2, 3, 4]"
  by (simp add: LALGetOrthogonalFilterBCV2_def orthogonal_swap_def Let_def)

text \<open>
  C5, amended: applying the orthogonalizer twice keeps the length, negates every entry
  the loop swaps (\<open>1 \<le> j < N div 2\<close> and \<open>N - N div 2 < j < N\<close>) and leaves every other
  entry (index \<open>0\<close>, and \<open>N div 2\<close> up to \<open>N - N div 2\<close>) exactly as it was.
\<close>

theorem orthogonalizer_twice:
  assumes "j < length f"
  shows "length (LALGetOrthogonalFilterBCV2 (LALGetOrthogonalFilterBCV2 f)) = length f
   \<and> LALGetOrthogonalFilterBCV2 (LALGetOrthogonalFilterBCV2 f) ! j =
       (if swapped_index (length f) j then - (f ! j) else f ! j)"
  using assms by (simp add: LALGetOrthogonalFilterBCV2_twice_nth)

theorem orthogonalizer_twice_witness:
  "(1::nat) < length [1, 2, 3, 4 :: real]
   \<and> LALGetOrthogonalFilterBCV2 (LALGetOrthogonalFilterBCV2 [1, 2, 3, 4]) ! 1 = - 2
   \<and> LALGetOrthogonalFilterBCV2 (LALGetOrthogonalFilterBCV2 [1, 2, 3, 4]) ! 0 = 1"
  using orthogonalizer_twice[of 1 "[1, 2, 3, 4]"] orthogonalizer_twice[of 0 "[1, 2, 3, 4]"]
  by (simp add: swapped_index_def)

subsection \<open>Frequency-power vectors\<close>

text \<open>A loop that writes \<open>g i\<close> at every index \<open>i\<close> of a range, entry by entry.\<close>

lemma length_fold_update [simp]: "length (fold (\<lambda>i v. v[i := g i]) ks v) = length v"
  by (induction ks arbitrary: v) simp_all

lemma fold_update_nth:
  "j < length v \<Longrightarrow>
   fold (\<lambda>i v. v[i := g i]) [lo..<m] v ! j = (if lo \<le> j \<and> j < m then g j else v ! j)"
proof (induction m)
  case 0 then show ?case by simp
next
  case (Suc m)
  show ?case
  proof (cases "lo \<le> m")
    case True
    then show ?thesis using Suc by (auto simp: nth_list_update less_Suc_eq)
  next
    case False
    then show ?thesis using Suc by auto
  qed
qed

lemma length_LALCreateVectorFreqPower [simp]:
  "length (LALCreateVectorFreqPower vector params a b) = length vector"
  by (simp add: LALCreateVectorFreqPower_def Let_def)

lemma LALCreateVectorFreqPower_nth:
  assumes "i < length vector"
  shows "LALCreateVectorFreqPower vector params a b ! i =
     (if i = 0 then 0
      else pow (real i * (tSampling params / real (length vector) / 2))
             (real_of_int a / real_of_int b))"
  using assms by (auto simp add: LALCreateVectorFreqPower_def Let_def fold_update_nth)

text \<open>Every entry is overwritten, so the result does not depend on what the buffer held.\<close>

lemma LALCreateVectorFreqPower_indep:
  assumes "length v = length w"
  shows "LALCreateVectorFreqPower v params a b = LALCreateVectorFreqPower w params a b"
  by (rule nth_equalityI) (simp_all add: assms LALCreateVectorFreqPower_nth)

text \<open>
  C9, as stated: for length \<open>N\<close> the builder returns \<open>N/2\<close> entries, entry \<open>i > 0\<close> being
  \<open>(i * deltaF) powr (a/b)\<close> with \<open>deltaF = samplingRate / N / 2\<close>. For \<open>N = 4\<close> and a
  sampling rate of \<open>8\<close> the vector \<open>f powr (-1/2)\<close> built by \<^verbatim>\<open>BECreatePowerVector\<close> has
  \<open>2\<close> entries and its entry \<open>1\<close> is \<open>2 powr (-1/2)\<close>, not \<open>(8 / 4 / 2) powr (-1/2) = 1\<close>:
  the divisor in the code is the length of the vector, \<open>N div 2\<close>, not \<open>N\<close>.
\<close>

theorem freq_power_deltaF_counterexample:
  "length (fm1_2 (BECreatePowerVector
       \<lparr>fLower = 1, tSampling = 8, fFinal = 2, nStartPad = 0, startPhase = 0\<rparr> 4)) = 4 div 2
   \<and> fm1_2 (BECreatePowerVector
       \<lparr>fLower = 1, tSampling = 8, fFinal = 2, nStartPad = 0, startPhase = 0\<rparr> 4) ! 1
     \<noteq> (real 1 * (tSampling \<lparr>fLower = 1, tSampling = 8, fFinal = 2, nStartPad = 0, startPhase = 0\<rparr>
                    / real 4 / 2)) powr (real_of_int (- 1) / real_of_int 2)"
  by (simp add: BECreatePowerVector_def LALCreateVectorFreqPower_nth pow_def)

text \<open>
  C9, amended: called on a vector of \<open>N div 2\<close> entries with a positive sampling rate and
  exponent \<open>a/b\<close>, \<open>b \<noteq> 0\<close>, the builder returns \<open>N div 2\<close> entries; entry \<open>0\<close> is \<open>0\<close>
  and entry \<open>i > 0\<close> is \<open>(i * deltaF) powr (a/b)\<close> with
  \<open>deltaF = samplingRate / (N div 2) / 2\<close>; the result is the same whatever the vector
  held before, so two runs with the same arguments give the same sequence.
\<close>

theorem freq_power_vector:
  assumes "length vector = N div 2" and "i < N div 2"
    and "0 < tSampling params" and "b \<noteq> 0"
  shows "length (LALCreateVectorFreqPower vector params a b) = N div 2
       \<and> LALCreateVectorFreqPower vector params a b ! i
           = (if i = 0 then 0
              else (real i * (tSampling params / real (N div 2) / 2))
                     powr (real_of_int a / real_of_int b))
       \<and> LALCreateVectorFreqPower vector params a b
           = LALCreateVectorFreqPower (replicate (N div 2) 0) params a b"
  using assms LALCreateVectorFreqPower_indep[of vector "replicate (N div 2) 0" params a b]
  by (simp add: LALCreateVectorFreqPower_nth pow_def)

theorem freq_power_vector_witness:
  "LALCreateVectorFreqPower [5, 5] \<lparr>fLower = 1, tSampling = 8, fFinal = 2, nStartPad = 0, startPhase = 0\<rparr> (- 1) 2 ! 0 = 0
   \<and> LALCreateVectorFreqPower [5, 5] \<lparr>fLower = 1, tSampling = 8, fFinal = 2, nStartPad = 0, startPhase = 0\<rparr> (- 1) 2 ! 1
       = 2 powr (- (1 / 2))
   \<and> LALCreateVectorFreqPower [5, 5] \<lparr>fLower = 1, tSampling = 8, fFinal = 2, nStartPad = 0, startPhase = 0\<rparr> (- 1) 2
       = LALCreateVectorFreqPower (replicate (4 div 2) 0) \<lparr>fLower = 1, tSampling = 8, fFinal = 2, nStartPad = 0, startPhase = 0\<rparr> (- 1) 2"
proof -
  let ?p = "\<lparr>fLower = 1, tSampling = 8, fFinal = 2, nStartPad = 0, startPhase = 0\<rparr>"
  have l: "length [5, 5 :: real] = 4 div 2" by simp
  have i0: "(0::nat) < 4 div 2" and i1: "(1::nat) < 4 div 2" by simp_all
  have t: "0 < tSampling ?p" by simp
  have b: "(2::int) \<noteq> 0" by simp
  note A = freq_power_vector[OF l i0 t b, of "- 1"]
  note B = freq_power_vector[OF l i1 t b, of "- 1"]
  have c0: "LALCreateVectorFreqPower [5, 5] ?p (- 1) 2 ! 0 = 0"
    using A[THEN conjunct2, THEN conjunct1] by simp
  have c1: "LALCreateVectorFreqPower [5, 5] ?p (- 1) 2 ! 1 = 2 powr (- (1 / 2))"
    using B[THEN conjunct2, THEN conjunct1] by simp
  have c2: "LALCreateVectorFreqPower [5, 5] ?p (- 1) 2
      = LALCreateVectorFreqPower (replicate (4 div 2) 0) ?p (- 1) 2"
    by (rule B[THEN conjunct2, THEN conjunct2])
  show ?thesis using c0 c1 c2 by blast
qed

subsection \<open>Filter pair constructor\<close>

lemma fold_zero_pair:
  "fold (\<lambda>i (F1, F2). (F1[i := 0::real], F2[i := 0::real])) ks (A, B)
     = (fold (\<lambda>i v. v[i := 0]) ks A, fold (\<lambda>i v. v[i := 0]) ks B)"
  by (induction ks arbitrary: A B) simp_all

text \<open>An index that is neither a bin of the second loop nor the mirror of one is not written.\<close>

lemma fold_filter_bin_untouched:
  assumes "\<forall>i\<in>set ks. j \<noteq> i \<and> j \<noteq> n - i"
  shows "fst (fold (filter_bin n pv x y z psi0 psi3) ks (F1, F2)) ! j = F1 ! j
       \<and> snd (fold (filter_bin n pv x y z psi0 psi3) ks (F1, F2)) ! j = F2 ! j"
  using assms
proof (induction ks arbitrary: F1 F2)
  case Nil
  then show ?case by simp
next
  case (Cons k ks)
  obtain G1 G2 where g: "filter_bin n pv x y z psi0 psi3 k (F1, F2) = (G1, G2)"
    by (cases "filter_bin n pv x y z psi0 psi3 k (F1, F2)")
  have "G1 ! j = F1 ! j" "G2 ! j = F2 ! j"
    using g Cons.prems by (auto simp: filter_bin_def Let_def)
  then show ?case using Cons.IH[of G1 G2] Cons.prems g by simp
qed

text \<open>
  A run on buffers that hold \<open>5\<close> and \<open>7\<close> everywhere, with \<open>N = 8\<close>, \<open>kMin = 2\<close>,
  \<open>kMax = 3\<close> and \<open>psi0 = psi3 = 0\<close>: bin \<open>0\<close> is zeroed, bins \<open>2\<close> and \<open>3\<close> and their
  mirrors \<open>6\<close> and \<open>5\<close> are filled, and bins \<open>1\<close>, \<open>4\<close> and \<open>7\<close> keep what the buffers
  held.
\<close>

lemma LALCreateFilters_example:
  "LALCreateFilters [5, 5, 5, 5, 5, 5, 5, 5] [7, 7, 7, 7, 7, 7, 7, 7]
      \<lparr>fm5_3 = [0, 1, 1, 1], fm2_3 = [0, 1, 1, 1], fm7_6 = [0, 1, 1, 1], fm1_2 = [0, 1, 1, 1]\<rparr>
      \<lparr>a11 = [0, 0, 0, 1], a21 = [0, 0, 0, 1], a22 = [0, 0, 0, 1]\<rparr> 2 3 0 0
   = ([0, 5, 1, 1, 5, 0, 0, 5], [0, 7, 2, 2, 7, 0, 0, 7])"
  by (simp add: LALCreateFilters_def filter_bin_def uint4_sub_def Let_def)

text \<open>
  C3 says that for \<open>kMin \<ge> 1\<close> both filters are zero at every bin below \<open>kMin\<close> after
  the call, whatever the buffers held. The code does not establish this at bin
  \<open>kMin - 1\<close>: the zeroing loop stops at \<open>kMin - 2\<close> and the filling loop starts at
  \<open>kMin\<close>, so for \<open>1 \<le> kMin \<le> N div 2\<close> the entry at \<open>kMin - 1\<close> of each filter is
  the one the buffer held on entry.
\<close>

theorem LALCreateFilters_keeps_bin_below_kMin:
  assumes "1 \<le> kMin" and "kMin \<le> length FilterBCV1 div 2" and "kMin < 2 ^ 32"
    and "length FilterBCV2 = length FilterBCV1"
  shows "fst (LALCreateFilters FilterBCV1 FilterBCV2 powerVector moments kMin kMax psi0 psi3)
           ! (kMin - 1) = FilterBCV1 ! (kMin - 1)
       \<and> snd (LALCreateFilters FilterBCV1 FilterBCV2 powerVector moments kMin kMax psi0 psi3)
           ! (kMin - 1) = FilterBCV2 ! (kMin - 1)"
proof -
  let ?n = "length FilterBCV1"
  have u: "uint4_sub kMin 1 = kMin - 1"
    using assms by (cases kMin) (simp_all add: uint4_sub_def)
  have j: "kMin - 1 < ?n" using assms by linarith
  have unt: "\<forall>i\<in>set [kMin..<?n div 2]. kMin - 1 \<noteq> i \<and> kMin - 1 \<noteq> ?n - i"
    using assms by auto
  let ?Z1 = "fold (\<lambda>i v. v[i := 0::real]) [0..<kMin - 1] FilterBCV1"
  let ?Z2 = "fold (\<lambda>i v. v[i := 0::real]) [0..<kMin - 1] FilterBCV2"
  have z1: "?Z1 ! (kMin - 1) = FilterBCV1 ! (kMin - 1)"
    using j by (simp add: fold_update_nth)
  have z2: "?Z2 ! (kMin - 1) = FilterBCV2 ! (kMin - 1)"
    using j assms(4) by (simp add: fold_update_nth)
  show ?thesis
    unfolding LALCreateFilters_def Let_def u fold_zero_pair
    using fold_filter_bin_untouched[OF unt, of powerVector "a11 moments ! kMax" "a21 moments ! kMax"
        "a22 moments ! kMax" psi0 psi3 ?Z1 ?Z2]
      z1 z2
    by simp
qed

theorem LALCreateFilters_keeps_bin_below_kMin_witness:
  "fst (LALCreateFilters [5, 5, 5, 5, 5, 5, 5, 5] [7, 7, 7, 7, 7, 7, 7, 7]
      \<lparr>fm5_3 = [0, 1, 1, 1], fm2_3 = [0, 1, 1, 1], fm7_6 = [0, 1, 1, 1], fm1_2 = [0, 1, 1, 1]\<rparr>
      \<lparr>a11 = [0, 0, 0, 1], a21 = [0, 0, 0, 1], a22 = [0, 0, 0, 1]\<rparr> 2 3 0 0) ! 1 = 5
   \<and> snd (LALCreateFilters [5, 5, 5, 5, 5, 5, 5, 5] [7, 7, 7, 7, 7, 7, 7, 7]
      \<lparr>fm5_3 = [0, 1, 1, 1], fm2_3 = [0, 1, 1, 1], fm7_6 = [0, 1, 1, 1], fm1_2 = [0, 1, 1, 1]\<rparr>
      \<lparr>a11 = [0, 0, 0, 1], a21 = [0, 0, 0, 1], a22 = [0, 0, 0, 1]\<rparr> 2 3 0 0) ! 1 = 7"
  using LALCreateFilters_keeps_bin_below_kMin[of 2 "[5, 5, 5, 5, 5, 5, 5, 5]" "[7, 7, 7, 7, 7, 7, 7, 7]"
      "\<lparr>fm5_3 = [0, 1, 1, 1], fm2_3 = [0, 1, 1, 1], fm7_6 = [0, 1, 1, 1], fm1_2 = [0, 1, 1, 1]\<rparr>"
      "\<lparr>a11 = [0, 0, 0, 1], a21 = [0, 0, 0, 1], a22 = [0, 0, 0, 1]\<rparr>" 3 0 0]
  by simp

subsection \<open>Noise moment calculator\<close>



text \<open>The zeroing loop writes zeros into arrays that \<^verbatim>\<open>LALCalloc\<close> has zeroed.\<close>

lemma fold_moment_zero_alloc:
  "fold moment_zero ks (moment_alloc length') = moment_alloc length'"
proof (induction ks)
  case Nil then show ?case by simp
next
  case (Cons k ks)
  have "moment_zero k (moment_alloc length') = moment_alloc length'"
    by (simp add: moment_zero_def moment_alloc_def list_update_same_conv)
       (metis list_update_beyond list_update_id not_le nth_replicate length_replicate)
  then show ?case using Cons by simp
qed







lemma LALCreateMomentVector_empty:
  assumes "moment_kMax psd params \<le> moment_kMin psd params"
  shows "LALCreateMomentVector psd params length' = moment_alloc length'"
  using assms by (simp add: LALCreateMomentVector_def moment_loop_def fold_moment_zero_alloc)


























text \<open>
  C7, as stated: the function fails when the cutoff frequency exceeds the Nyquist
  frequency, and does not silently produce all-zero arrays. With \<open>fLower = 3\<close> and a
  sampling rate of \<open>4\<close> on a spectrum of spacing \<open>1\<close> the cutoff bin is \<open>3\<close>, the Nyquist
  bin is \<open>2\<close>, and for length \<open>16\<close> the function returns three arrays of \<open>8\<close> zeros.
\<close>

theorem moment_vector_beyond_nyquist_counterexample:
  "tSampling \<lparr>fLower = 3, tSampling = 4, fFinal = 1, nStartPad = 0, startPhase = 0\<rparr> / 2
     < fLower \<lparr>fLower = 3, tSampling = 4, fFinal = 1, nStartPad = 0, startPhase = 0\<rparr>
   \<and> moment_kMax \<lparr>f0 = 0, deltaF = 1, data = [1, 1, 1]\<rparr>
        \<lparr>fLower = 3, tSampling = 4, fFinal = 1, nStartPad = 0, startPhase = 0\<rparr>
     < moment_kMin \<lparr>f0 = 0, deltaF = 1, data = [1, 1, 1]\<rparr>
        \<lparr>fLower = 3, tSampling = 4, fFinal = 1, nStartPad = 0, startPhase = 0\<rparr>
   \<and> LALCreateMomentVector \<lparr>f0 = 0, deltaF = 1, data = [1, 1, 1]\<rparr>
        \<lparr>fLower = 3, tSampling = 4, fFinal = 1, nStartPad = 0, startPhase = 0\<rparr> 16
     = \<lparr>a11 = replicate 8 0, a21 = replicate 8 0, a22 = replicate 8 0\<rparr>"
proof -
  let ?psd = "\<lparr>f0 = 0, deltaF = 1, data = [1, 1, 1]\<rparr>"
  let ?p = "\<lparr>fLower = 3, tSampling = 4, fFinal = 1, nStartPad = 0, startPhase = 0\<rparr>"
  have kmin: "moment_kMin ?psd ?p = 3" by (simp add: moment_kMin_def uint4_of_real_def)
  have kmax: "moment_kMax ?psd ?p = 2" by (simp add: moment_kMax_def uint4_of_real_def)
  have "LALCreateMomentVector ?psd ?p 16 = moment_alloc 16"
    by (rule LALCreateMomentVector_empty) (simp add: kmin kmax)
  then show ?thesis by (simp add: kmin kmax moment_alloc_def)
qed

text \<open>
  C7, amended: the function has no failure path; on inputs on which it is defined and
  whose cutoff bin is not below the Nyquist bin it returns normally, with all-zero
  arrays of \<open>length div 2\<close> entries.
\<close>

theorem moment_vector_beyond_nyquist:
  assumes "moment_defined psd params length'"
    and "moment_kMax psd params \<le> moment_kMin psd params"
  shows "LALCreateMomentVector psd params length'
       = \<lparr>a11 = replicate (length' div 2) 0, a21 = replicate (length' div 2) 0,
          a22 = replicate (length' div 2) 0\<rparr>"
  using LALCreateMomentVector_empty[OF assms(2)] by (simp add: moment_alloc_def)

theorem moment_vector_beyond_nyquist_witness:
  "LALCreateMomentVector \<lparr>f0 = 0, deltaF = 1, data = [1, 1, 1]\<rparr>
        \<lparr>fLower = 3, tSampling = 4, fFinal = 1, nStartPad = 0, startPhase = 0\<rparr> 16
     = \<lparr>a11 = replicate (16 div 2) 0, a21 = replicate (16 div 2) 0,
        a22 = replicate (16 div 2) 0\<rparr>"
proof -
  let ?psd = "\<lparr>f0 = 0, deltaF = 1, data = [1, 1, 1]\<rparr>"
  let ?p = "\<lparr>fLower = 3, tSampling = 4, fFinal = 1, nStartPad = 0, startPhase = 0\<rparr>"
  have d: "moment_defined ?psd ?p 16"
    by (simp add: moment_defined_def moment_kMin_def moment_kMax_def uint4_of_real_def)
  have c: "moment_kMax ?psd ?p \<le> moment_kMin ?psd ?p"
    by (simp add: moment_kMin_def moment_kMax_def uint4_of_real_def)
  show ?thesis by (rule moment_vector_beyond_nyquist[OF d c])
qed

subsection \<open>Rounding to REAL4 and REAL8\<close>

text \<open>
  Rounding to nearest is monotone and odd, keeps every number \<open>m * 2 ^ k\<close> whose
  significand \<open>m\<close> fits the format, and takes everything below half of the least
  subnormal number to zero.
\<close>

lemma round_even_of_int [simp]: "round_even (of_int n) = n"
  by (simp add: round_even_def)

lemma round_even_bounds: "\<lfloor>q\<rfloor> \<le> round_even q \<and> round_even q \<le> \<lfloor>q\<rfloor> + 1"
  by (simp add: round_even_def Let_def)

lemma round_even_mono:
  assumes "x \<le> y"
  shows "round_even x \<le> round_even y"
proof (cases "\<lfloor>x\<rfloor> < \<lfloor>y\<rfloor>")
  case True
  then show ?thesis using round_even_bounds[of x] round_even_bounds[of y] by linarith
next
  case False
  then have eq: "\<lfloor>x\<rfloor> = \<lfloor>y\<rfloor>" using floor_mono[OF assms] by linarith
  then have "x - of_int \<lfloor>x\<rfloor> \<le> y - of_int \<lfloor>y\<rfloor>" using assms by simp
  then show ?thesis unfolding round_even_def Let_def eq by auto
qed

lemma round_even_minus: "round_even (- q) = - round_even q"
proof (cases "q = of_int \<lfloor>q\<rfloor>")
  case True
  then obtain n :: int where "q = of_int n" by metis
  then have "round_even (- q) = round_even (of_int (- n))" by simp
  then show ?thesis using \<open>q = of_int n\<close> by (simp only: round_even_of_int)
next
  case False
  then have lt: "of_int \<lfloor>q\<rfloor> < q" using of_int_floor_le[of q] by linarith
  have le: "q \<le> of_int \<lfloor>q\<rfloor> + 1" by linarith
  have fl: "\<lfloor>- q\<rfloor> = - \<lfloor>q\<rfloor> - 1"
  proof (rule floor_unique)
    show "of_int (- \<lfloor>q\<rfloor> - 1) \<le> - q" by simp linarith
    show "- q < of_int (- \<lfloor>q\<rfloor> - 1) + 1" using lt by simp
  qed
  have odd: "even (- \<lfloor>q\<rfloor> - 1) \<longleftrightarrow> \<not> even \<lfloor>q\<rfloor>" by simp
  show ?thesis
    unfolding round_even_def Let_def fl odd by (auto simp: algebra_simps)
qed

lemma ieee_round_minus: "ieee_round p emin (- x) = - ieee_round p emin x"
  by (simp add: ieee_round_def Let_def round_even_minus)

lemma round_even_zero [simp]: "round_even 0 = 0"
  by (simp add: round_even_def)

lemma round_even_nonneg: "0 \<le> q \<Longrightarrow> 0 \<le> round_even q"
  using round_even_mono[of 0 q] by simp

lemma ieee_round_nonneg: "0 \<le> x \<Longrightarrow> 0 \<le> ieee_round p emin x"
  by (simp add: ieee_round_def Let_def round_even_nonneg)

lemma two_powr_of_nat: "2 powr of_int (int n) = (of_int (2 ^ n) :: real)"
  by (simp add: powr_realpow)

lemma ieee_round_mono_pos:
  assumes x: "0 < x" and xy: "x \<le> y" and p: "0 < p"
  shows "ieee_round p emin x \<le> ieee_round p emin y"
proof -
  define ex where "ex = max \<lfloor>log 2 x\<rfloor> emin"
  define ey where "ey = max \<lfloor>log 2 y\<rfloor> emin"
  define ux :: real where "ux = 2 powr of_int (ex - int p + 1)"
  define uy :: real where "uy = 2 powr of_int (ey - int p + 1)"
  have y: "0 < y" using x xy by linarith
  have ux0: "0 < ux" and uy0: "0 < uy" by (simp_all add: ux_def uy_def)
  have rx: "ieee_round p emin x = of_int (round_even (x / ux)) * ux"
    using x by (simp add: ieee_round_def Let_def ex_def ux_def)
  have ry: "ieee_round p emin y = of_int (round_even (y / uy)) * uy"
    using y by (simp add: ieee_round_def Let_def ey_def uy_def)
  have "log 2 x \<le> log 2 y" using x y xy by simp
  then have exy: "ex \<le> ey" unfolding ex_def ey_def using floor_mono by fastforce
  show ?thesis
  proof (cases "ex = ey")
    case True
    then have u: "ux = uy" by (simp add: ux_def uy_def)
    have "x / uy \<le> y / uy" using xy uy0 by (simp add: divide_right_mono)
    then have "round_even (x / uy) \<le> round_even (y / uy)" by (rule round_even_mono)
    then have "(of_int (round_even (x / uy)) :: real) \<le> of_int (round_even (y / uy))" by simp
    then show ?thesis unfolding rx ry u using uy0 by (simp add: mult_right_mono)
  next
    case False
    then have lt: "ex + 1 \<le> ey" using exy by simp
    then have eyfl: "ey = \<lfloor>log 2 y\<rfloor>" unfolding ey_def ex_def by linarith
    have y_ge: "2 powr of_int ey \<le> y"
      using floor_log_eq_powr_iff[of y 2 ey] y eyfl by simp
    have "x < 2 powr (of_int \<lfloor>log 2 x\<rfloor> + 1)"
      using floor_log_eq_powr_iff[of x 2 "\<lfloor>log 2 x\<rfloor>"] x by simp
    also have "\<dots> \<le> 2 powr (of_int ex + 1)"
      unfolding ex_def by (simp add: powr_mono)
    finally have x_lt: "x < 2 powr (of_int ex + 1)" .
    have "x / ux < 2 powr (of_int ex + 1) / ux"
      using x_lt ux0 by (rule divide_strict_right_mono)
    also have "2 powr (of_int ex + 1) / ux = 2 powr of_int (int p)"
      unfolding ux_def by (simp add: powr_diff[symmetric])
    finally have qx: "x / ux < of_int (2 ^ p)"
      by (simp only: two_powr_of_nat)
    have "round_even (x / ux) \<le> round_even (of_int (2 ^ p))"
      using qx by (intro round_even_mono) simp
    then have "(of_int (round_even (x / ux)) :: real) \<le> of_int (2 ^ p)"
      by (simp only: round_even_of_int of_int_le_iff)
    then have "ieee_round p emin x \<le> of_int (2 ^ p) * ux"
      unfolding rx using ux0 by (simp add: mult_right_mono)
    also have "of_int (2 ^ p) * ux = 2 powr (of_int ex + 1)"
      unfolding ux_def two_powr_of_nat[symmetric] by (simp add: powr_add[symmetric])
    also have "\<dots> \<le> 2 powr of_int ey"
    proof (rule powr_mono)
      show "real_of_int ex + 1 \<le> real_of_int ey" using lt by linarith
      show "(1::real) \<le> 2" by simp
    qed
    finally have A: "ieee_round p emin x \<le> 2 powr of_int ey" .
    obtain p' where p': "p = Suc p'" using p by (cases p) simp_all
    have "2 powr of_int ey / uy \<le> y / uy"
      using y_ge uy0 by (simp add: divide_right_mono)
    moreover have "2 powr of_int ey / uy = 2 powr of_int (int p')"
      unfolding uy_def p' by (simp add: powr_diff[symmetric])
    ultimately have qy: "of_int (2 ^ p') \<le> y / uy"
      by (simp only: two_powr_of_nat)
    have "round_even (of_int (2 ^ p')) \<le> round_even (y / uy)"
      using qy by (intro round_even_mono) simp
    then have "(of_int (2 ^ p') :: real) \<le> of_int (round_even (y / uy))"
      by (simp only: round_even_of_int of_int_le_iff)
    then have "of_int (2 ^ p') * uy \<le> ieee_round p emin y"
      unfolding ry using uy0 by (simp add: mult_right_mono)
    moreover have "of_int (2 ^ p') * uy = 2 powr of_int ey"
      unfolding uy_def p' two_powr_of_nat[symmetric] by (simp add: powr_add[symmetric])
    ultimately show ?thesis using A by linarith
  qed
qed

lemma ieee_round_mono:
  assumes "x \<le> y" "0 < p"
  shows "ieee_round p emin x \<le> ieee_round p emin y"
proof -
  consider "0 < x" | "x \<le> 0" "0 \<le> y" | "y < 0" by linarith
  then show ?thesis
  proof cases
    case 1
    then show ?thesis using assms by (intro ieee_round_mono_pos)
  next
    case 2
    have "ieee_round p emin x = - ieee_round p emin (- x)" by (simp add: ieee_round_minus)
    moreover have "0 \<le> ieee_round p emin (- x)" using 2 by (intro ieee_round_nonneg) simp
    moreover have "0 \<le> ieee_round p emin y" using 2 by (intro ieee_round_nonneg)
    ultimately show ?thesis by linarith
  next
    case 3
    have "ieee_round p emin (- y) \<le> ieee_round p emin (- x)"
      using 3 assms by (intro ieee_round_mono_pos) simp_all
    then show ?thesis by (simp add: ieee_round_minus)
  qed
qed

text \<open>A number \<open>m * 2 ^ k\<close> with a significand of at most \<open>p\<close> bits is representable.\<close>

lemma ieee_round_representable:
  assumes m: "\<bar>m\<bar> < 2 ^ p" and k: "emin - int p + 1 \<le> k"
  shows "ieee_round p emin (of_int m * 2 powr of_int k) = of_int m * 2 powr of_int k"
proof (cases "m = 0")
  case True
  then show ?thesis by (simp add: ieee_round_def)
next
  case False
  define x :: real where "x = of_int m * 2 powr of_int k"
  define e where "e = max \<lfloor>log 2 \<bar>x\<bar>\<rfloor> emin"
  have x0: "x \<noteq> 0" using False by (simp add: x_def)
  have absx: "\<bar>x\<bar> = of_int \<bar>m\<bar> * 2 powr of_int k" by (simp add: x_def abs_mult)
  have "\<bar>x\<bar> < of_int (2 ^ p) * 2 powr of_int k"
    unfolding absx using m by (intro mult_strict_right_mono) (simp_all del: of_int_power)
  also have "\<dots> = 2 powr (of_int (int p + k))"
    unfolding two_powr_of_nat[symmetric] by (simp add: powr_add[symmetric])
  finally have "\<bar>x\<bar> < 2 powr (of_int (int p + k))" .
  then have "log 2 \<bar>x\<bar> < of_int (int p + k)"
    using x0 by (subst log_less_iff) simp_all
  then have "\<lfloor>log 2 \<bar>x\<bar>\<rfloor> < int p + k" by (simp add: floor_less_iff)
  then have e: "e \<le> int p + k - 1" unfolding e_def using k by simp
  define d where "d = nat (k - (e - int p + 1))"
  have dk: "k = (e - int p + 1) + int d" using e by (simp add: d_def)
  have "x / 2 powr of_int (e - int p + 1) = of_int m * 2 powr of_int (int d)"
    unfolding x_def by (subst dk) (simp add: powr_add)
  also have "\<dots> = of_int (m * 2 ^ d)"
    unfolding two_powr_of_nat by simp
  finally have q: "x / 2 powr of_int (e - int p + 1) = of_int (m * 2 ^ d)" .
  have "ieee_round p emin x = of_int (round_even (x / 2 powr of_int (e - int p + 1)))
      * 2 powr of_int (e - int p + 1)"
    using x0 by (simp add: ieee_round_def Let_def e_def)
  also have "\<dots> = x / 2 powr of_int (e - int p + 1) * 2 powr of_int (e - int p + 1)"
    unfolding q by (simp only: round_even_of_int)
  also have "\<dots> = x" by simp
  finally show ?thesis unfolding x_def .
qed

text \<open>Below half of the least subnormal number the result is zero.\<close>

lemma ieee_round_underflow:
  assumes "\<bar>x\<bar> < 2 powr of_int (emin - int p)"
  shows "ieee_round p emin x = 0"
proof (cases "x = 0")
  case True
  then show ?thesis by (simp add: ieee_round_def)
next
  case False
  have "log 2 \<bar>x\<bar> < of_int (emin - int p)"
    using assms False by (subst log_less_iff) simp_all
  then have "\<lfloor>log 2 \<bar>x\<bar>\<rfloor> < emin - int p" by (simp add: floor_less_iff)
  then have e: "max \<lfloor>log 2 \<bar>x\<bar>\<rfloor> emin = emin" by simp
  define u :: real where "u = 2 powr of_int (emin - int p + 1)"
  have u0: "0 < u" by (simp add: u_def)
  have "(2::real) powr (of_int (emin - int p) + 1) = 2 powr of_int (emin - int p) * 2 powr 1"
    by (simp only: powr_add)
  then have "2 powr of_int (emin - int p) = u / 2"
    unfolding u_def by (simp add: add.commute)
  then have "\<bar>x\<bar> < u / 2" using assms by simp
  then have a: "\<bar>x / u\<bar> < 1 / 2" using u0 by (simp add: field_simps)
  define q where "q = x / u"
  have lo: "- (1 / 2) < q" and hi: "q < 1 / 2" using a unfolding q_def by linarith+
  have "round_even q = 0"
  proof (cases "0 \<le> q")
    case True
    have "\<lfloor>q\<rfloor> = 0"
    proof (rule floor_unique)
      show "of_int 0 \<le> q" using True by simp
      show "q < of_int 0 + 1" using hi by simp
    qed
    then show ?thesis using hi by (simp add: round_even_def Let_def)
  next
    case False
    have "\<lfloor>q\<rfloor> = - 1"
    proof (rule floor_unique)
      show "of_int (- 1) \<le> q" using lo by simp
      show "q < of_int (- 1) + 1" using False by simp
    qed
    moreover have "1 / 2 < q + 1" using lo by linarith
    ultimately show ?thesis by (simp add: round_even_def Let_def)
  qed
  then have "round_even (x / u) = 0" by (simp add: q_def)
  then show ?thesis using False by (simp add: ieee_round_def Let_def e u_def)
qed

lemma to_REAL4_zero [simp]: "to_REAL4 0 = 0"
  by (simp add: to_REAL4_def ieee_round_def)

lemma to_REAL8_zero [simp]: "to_REAL8 0 = 0"
  by (simp add: to_REAL8_def ieee_round_def)

lemma to_REAL4_minus [simp]: "to_REAL4 (- x) = - to_REAL4 x"
  by (simp add: to_REAL4_def ieee_round_minus)

lemma to_REAL8_minus [simp]: "to_REAL8 (- x) = - to_REAL8 x"
  by (simp add: to_REAL8_def ieee_round_minus)

lemma to_REAL4_mono: "x \<le> y \<Longrightarrow> to_REAL4 x \<le> to_REAL4 y"
  by (simp add: to_REAL4_def ieee_round_mono)

lemma to_REAL8_mono: "x \<le> y \<Longrightarrow> to_REAL8 x \<le> to_REAL8 y"
  by (simp add: to_REAL8_def ieee_round_mono)

lemma two_powr_neg_nat: "2 powr of_int (- int n) = 1 / (2::real) ^ n"
  by (simp add: powr_minus powr_realpow divide_inverse)

lemma to_REAL4_dyadic:
  assumes "\<bar>m\<bar> < 2 ^ 24" "n \<le> 149"
  shows "to_REAL4 (of_int m / 2 ^ n) = of_int m / 2 ^ n"
proof -
  have "ieee_round 24 (- 126) (of_int m * 2 powr of_int (- int n)) = of_int m * 2 powr of_int (- int n)"
    using assms by (intro ieee_round_representable) simp_all
  then show ?thesis unfolding to_REAL4_def two_powr_neg_nat by simp
qed

lemma to_REAL8_dyadic:
  assumes "\<bar>m\<bar> < 2 ^ 53" "n \<le> 1074"
  shows "to_REAL8 (of_int m / 2 ^ n) = of_int m / 2 ^ n"
proof -
  have "ieee_round 53 (- 1022) (of_int m * 2 powr of_int (- int n)) = of_int m * 2 powr of_int (- int n)"
    using assms by (intro ieee_round_representable) simp_all
  then show ?thesis unfolding to_REAL8_def two_powr_neg_nat by simp
qed

lemma to_REAL4_underflow:
  assumes "\<bar>x\<bar> < 1 / 2 ^ 150"
  shows "to_REAL4 x = 0"
proof -
  have "2 powr of_int (- 126 - int 24) = 1 / (2::real) ^ 150"
    using two_powr_neg_nat[of 150] by simp
  then show ?thesis
    unfolding to_REAL4_def using assms by (intro ieee_round_underflow) simp
qed

subsection \<open>Overlap maximizer\<close>

text \<open>
  The three sectors cover every \<open>thetav\<close> between \<open>-LAL_PI - 1/10000\<close> and
  \<open>LAL_PI + 1/10000\<close>, for every \<open>thetab\<close>.
\<close>

lemma rho_constraint_cases:
  assumes "- LAL_PI - 1 / 10000 \<le> thetav" "thetav \<le> LAL_PI + 1 / 10000"
  shows "rho_constraint thetab thetav V0 V1 V2 rhoU
       \<in> {Inr rhoU, Inr (sqrt ((V0 + V1) / 2)),
          Inr (sqrt ((V0 + V1 * cos (2 * thetab) + V2 * sin (2 * thetab)) / 2))}"
  using assms by (auto simp: rho_constraint_def)

lemma atan2_range: "- pi < atan2 y x \<and> atan2 y x \<le> pi"
proof -
  have a: "- (pi / 2) < arctan (y / x)" "arctan (y / x) < pi / 2"
    by (rule arctan_lbound, rule arctan_ubound)
  have b: "arctan (y / x) \<le> 0" if "x < 0" "0 \<le> y"
    using that by (simp add: divide_nonneg_neg)
  have c: "0 < arctan (y / x)" if "x < 0" "y < 0"
    using that by (simp add: divide_neg_neg)
  have p: "0 < pi" by simp
  show ?thesis
    unfolding atan2_def using a b c p by (auto simp: not_less) 
qed

lemma overlap_thetab_range:
  "- (pi / 2) < overlap_thetab a b c d \<and> overlap_thetab a b c d < pi / 2"
  unfolding overlap_thetab_def Let_def by (rule conjI, rule arctan_lbound, rule arctan_ubound)

lemma lagrange_two:
  "(a * c + b * s)\<^sup>2 + (a * s - b * c)\<^sup>2 = (a * a + b * b) * (c * c + s * s)"
  for a b c s :: real
  by (simp add: power2_eq_square algebra_simps)

lemma rho_constraint_le:
  assumes "rho_constraint thetab thetav V0 V1 V2 (sqrt ((V0 + sqrt (V1 * V1 + V2 * V2)) / 2)) = Inr rhoC"
  shows "rhoC \<le> sqrt ((V0 + sqrt (V1 * V1 + V2 * V2)) / 2)"
proof -
  let ?c = "cos (2 * thetab)" and ?s = "sin (2 * thetab)"
  have v1: "V1 \<le> sqrt (V1 * V1 + V2 * V2)"
    using real_sqrt_sum_squares_ge1[of V1 V2] by (simp add: power2_eq_square)
  have "(V1 * ?c + V2 * ?s)\<^sup>2 + (V1 * ?s - V2 * ?c)\<^sup>2 = V1 * V1 + V2 * V2"
    unfolding lagrange_two by (simp add: sin_cos_squared_add3)
  moreover have "0 \<le> (V1 * ?s - V2 * ?c)\<^sup>2" by (rule zero_le_power2)
  ultimately have "(V1 * ?c + V2 * ?s)\<^sup>2 \<le> V1 * V1 + V2 * V2"
    by linarith
  then have "sqrt ((V1 * ?c + V2 * ?s)\<^sup>2) \<le> sqrt (V1 * V1 + V2 * V2)"
    by (simp only: real_sqrt_le_iff)
  then have v2: "V1 * ?c + V2 * ?s \<le> sqrt (V1 * V1 + V2 * V2)"
    by simp
  have "rhoC = sqrt ((V0 + sqrt (V1 * V1 + V2 * V2)) / 2) \<or> rhoC = sqrt ((V0 + V1) / 2)
      \<or> rhoC = sqrt ((V0 + V1 * ?c + V2 * ?s) / 2)"
    using assms by (auto simp: rho_constraint_def split: if_splits)
  then show ?thesis using v1 v2 by auto
qed

text \<open>
  C1: for \<open>thetav\<close> in \<open>[-pi, pi]\<close> and \<open>thetab\<close> in \<open>(-pi/2, pi/2)\<close> the sector decision
  assigns one of the three closed-form values, so the fallback branch is not taken; when
  the fallback branch is taken, the loop body does not go on with the sample but leaves
  with the failure that carries \<open>thetav\<close> and \<open>thetab\<close> (the message on \<^verbatim>\<open>stderr\<close> and
  \<^verbatim>\<open>exit\<close>). The angles the code computes are in these ranges: \<open>atan2\<close> lies in
  \<open>[-pi, pi]\<close>, and \<open>thetab\<close> lies in \<open>(-pi/2, pi/2)\<close> when the quotient it is the
  arctangent of has a non-zero denominator.
\<close>

theorem sector_decision_exhaustive:
  "(- pi \<le> thetav \<and> thetav \<le> pi \<and> - (pi / 2) < thetab \<and> thetab < pi / 2 \<longrightarrow>
      rho_constraint thetab thetav V0 V1 V2 rhoU
        \<in> {Inr rhoU, Inr (sqrt ((V0 + V1) / 2)),
           Inr (sqrt ((V0 + V1 * cos (2 * thetab) + V2 * sin (2 * thetab)) / 2))})
   \<and> (rho_constraint thetab thetav V0 V1 V2 rhoU = Inl e \<longrightarrow>
        e = MustNotEnterHere thetav thetab
        \<and> sample_sector otherIn thetab a11' a21' a22' fp23 V0 V1 V2 rhoU thetav i s = Inl e)
   \<and> - pi \<le> atan2 y x \<and> atan2 y x \<le> pi
   \<and> (a22' + a21' * alphaMax \<noteq> 0 \<longrightarrow>
        - (pi / 2) < overlap_thetab a11' a21' a22' alphaMax
        \<and> overlap_thetab a11' a21' a22' alphaMax < pi / 2)"
proof -
  have a: "rho_constraint thetab thetav V0 V1 V2 rhoU
        \<in> {Inr rhoU, Inr (sqrt ((V0 + V1) / 2)),
           Inr (sqrt ((V0 + V1 * cos (2 * thetab) + V2 * sin (2 * thetab)) / 2))}"
    if "- pi \<le> thetav" "thetav \<le> pi"
    using that by (intro rho_constraint_cases) (simp_all add: LAL_PI_def)
  have b: "e = MustNotEnterHere thetav thetab
        \<and> sample_sector otherIn thetab a11' a21' a22' fp23 V0 V1 V2 rhoU thetav i s = Inl e"
    if "rho_constraint thetab thetav V0 V1 V2 rhoU = Inl e"
  proof -
    have "e = MustNotEnterHere thetav thetab"
      using that by (auto simp: rho_constraint_def split: if_splits)
    then show ?thesis using that by (simp add: sample_sector_def)
  qed
  have c: "- pi \<le> atan2 y x" "atan2 y x \<le> pi"
    using atan2_range[of y x] by simp_all
  show ?thesis using a b c overlap_thetab_range[of a11' a21' a22' alphaMax] by blast
qed

theorem sector_decision_exhaustive_witness:
  "rho_constraint 0 0 1 1 0 1 \<in> {Inr 1, Inr (sqrt ((1 + 1) / 2)),
           Inr (sqrt ((1 + 1 * cos (2 * 0) + 0 * sin (2 * 0)) / 2))}
   \<and> sample_sector
        \<lparr>alphaFConstraint = ALPHAFConstraint, printBestOverlap = False, printSNRHisto = False,
          extraFinalPrinting = False\<rparr> 0 1 1 1 1 1 1 0 1 5 0
        \<lparr>rhoMaxConstraint = 0, alphaConstraint = 0, phaseConstraint = 0, rhoMaxUnconstraint = 0,
          rhoBinUnconstraint = 0, rhoBinConstraint = 0, alphaUnconstraint = 0,
          phaseUnconstraint = 0, correlation_v = [0]\<rparr>
       = Inl (MustNotEnterHere 5 0)"
proof -
  have h1: "- pi \<le> 0 \<and> (0::real) \<le> pi \<and> - (pi / 2) < 0 \<and> (0::real) < pi / 2" by simp
  have "pi + 1 / 10000 < 5" "\<not> 5 < - pi" using pi_less_4 pi_gt_zero by linarith+
  then have h2: "rho_constraint 0 5 1 1 0 1 = Inl (MustNotEnterHere 5 0)"
    by (simp add: rho_constraint_def LAL_PI_def)
  note A = sector_decision_exhaustive[of 0 0 1 1 0 1, THEN conjunct1, THEN mp, OF h1]
  note B = sector_decision_exhaustive[of 5 0 1 1 0 1 "MustNotEnterHere 5 0",
      THEN conjunct2, THEN conjunct1, THEN mp, OF h2, THEN conjunct2]
  show ?thesis by (rule conjI[OF A B])
qed

text \<open>
  The outer square root and the conversion to \<^verbatim>\<open>REAL4\<close> preserve the order of the
  radicands.
\<close>

lemma stored_sqrt_mono:
  assumes "r \<le> r'"
  shows "to_REAL4 (to_REAL8 (sqrt r)) \<le> to_REAL4 (to_REAL8 (sqrt r'))"
  using assms by (intro to_REAL4_mono to_REAL8_mono) simp

lemma rho_constraint_REAL4_cases:
  assumes "rho_constraint_REAL4 thetab thetav V0 V1 V2 rU = Inr rhoC"
  shows "rhoC = rU
       \<or> rhoC = to_REAL4 (to_REAL8 (sqrt (to_REAL8 (to_REAL4 (V0 + V1) / 2))))
       \<or> rhoC = to_REAL4 (to_REAL8 (sqrt (to_REAL8 (to_REAL8 (to_REAL8 (V0
                   + to_REAL8 (V1 * to_REAL8 (cos (to_REAL4 (2 * thetab)))))
                   + to_REAL8 (V2 * to_REAL8 (sin (to_REAL4 (2 * thetab))))) / 2))))"
  using assms by (auto simp: rho_constraint_REAL4_def Let_def split: if_splits)

text \<open>
  The second sector of the case \<^verbatim>\<open>thetab < 0\<close> in \<^verbatim>\<open>REAL4\<close> arithmetic.
\<close>

lemma rho_constraint_REAL4_second:
  assumes "thetab < 0" "0 < thetav" "thetav \<le> to_REAL8 (to_REAL8 pi + thetab)"
  shows "rho_constraint_REAL4 thetab thetav V0 V1 V2 rU
       = Inr (to_REAL4 (to_REAL8 (sqrt (to_REAL8 (to_REAL4 (V0 + V1) / 2)))))"
  using assms by (simp add: rho_constraint_REAL4_def Let_def)

text \<open>
  C2, as stated: at every sample the constrained value \<^verbatim>\<open>rhoConstraint\<close> is at most the
  unconstrained value \<^verbatim>\<open>rhoUnconstraint\<close> computed from the same four correlations. In
  the \<^verbatim>\<open>REAL4\<close> arithmetic of the code this fails. Take \<^verbatim>\<open>thetab = -1/2\<close> and the
  correlations \<open>x1 = 1 / 2 ^ 39\<close>, \<open>x2 = x3 = 1 / 2 ^ 40\<close>, \<open>x4 = 0\<close>, all of them
  \<^verbatim>\<open>REAL4\<close> numbers. Then \<open>V0 = 6 / 2 ^ 80\<close> and \<open>V1 = V2 = 1 / 2 ^ 78\<close> are computed without
  rounding error. \<^verbatim>\<open>V1*V1\<close> and \<^verbatim>\<open>V2*V2\<close> are \<open>1 / 2 ^ 156\<close>, below half of the least
  positive \<^verbatim>\<open>REAL4\<close> number \<open>1 / 2 ^ 149\<close>, and are rounded to \<open>0\<close>; so
  \<^verbatim>\<open>rhoUnconstraint\<close> is the rounded \<open>sqrt (V0 / 2) = sqrt (3 / 2 ^ 80)\<close>, which is at
  most \<open>7 / 2 ^ 42\<close>. \<^verbatim>\<open>thetav\<close> is the rounded \<open>pi / 4\<close>, in the second sector
  (\<^verbatim>\<open>0 < thetav && thetav <= LAL_PI + thetab\<close>), so \<^verbatim>\<open>rhoConstraint\<close> is the rounded
  \<open>sqrt ((V0 + V1) / 2) = sqrt (5 / 2 ^ 80)\<close>, which is at least \<open>1 / 2 ^ 39 = 8 / 2 ^ 42\<close>.
  The proof uses only that rounding is monotone and keeps the numbers of the format, not
  the last bit of \<^verbatim>\<open>sqrt\<close> or \<^verbatim>\<open>atan2\<close>.
\<close>

theorem constrained_le_unconstrained_counterexample:
  "to_REAL4 (1 / 2 ^ 39) = 1 / 2 ^ 39 \<and> to_REAL4 (1 / 2 ^ 40) = 1 / 2 ^ 40
   \<and> to_REAL4 (- (1 / 2)) = - (1 / 2)
   \<and> sample_rhoConstraint_REAL4 (- (1 / 2)) (1 / 2 ^ 39) (1 / 2 ^ 40) (1 / 2 ^ 40) 0
       = Inr (to_REAL4 (to_REAL8 (sqrt (5 / 2 ^ 80))))
   \<and> sample_rhoUnconstraint_REAL4 (1 / 2 ^ 39) (1 / 2 ^ 40) (1 / 2 ^ 40) 0
       < to_REAL4 (to_REAL8 (sqrt (5 / 2 ^ 80)))"
proof -
  have r39: "to_REAL4 (1 / 2 ^ 39) = 1 / 2 ^ 39" using to_REAL4_dyadic[of 1 39] by simp
  have r40: "to_REAL4 (1 / 2 ^ 40) = 1 / 2 ^ 40" using to_REAL4_dyadic[of 1 40] by simp
  have r78: "to_REAL4 (1 / 2 ^ 78) = 1 / 2 ^ 78" using to_REAL4_dyadic[of 1 78] by simp
  have r79: "to_REAL4 (1 / 2 ^ 79) = 1 / 2 ^ 79" using to_REAL4_dyadic[of 1 79] by simp
  have r80: "to_REAL4 (1 / 2 ^ 80) = 1 / 2 ^ 80" using to_REAL4_dyadic[of 1 80] by simp
  have r5: "to_REAL4 (5 / 2 ^ 80) = 5 / 2 ^ 80" using to_REAL4_dyadic[of 5 80] by simp
  have r6: "to_REAL4 (6 / 2 ^ 80) = 6 / 2 ^ 80" using to_REAL4_dyadic[of 6 80] by simp
  have r10: "to_REAL4 (10 / 2 ^ 80) = 10 / 2 ^ 80" using to_REAL4_dyadic[of 10 80] by simp
  have u: "to_REAL4 (1 / 2 ^ 156) = 0" by (rule to_REAL4_underflow) simp
  have d6: "to_REAL8 (6 / 2 ^ 80) = 6 / 2 ^ 80" using to_REAL8_dyadic[of 6 80] by simp
  have d3: "to_REAL8 (3 / 2 ^ 80) = 3 / 2 ^ 80" using to_REAL8_dyadic[of 3 80] by simp
  have d5: "to_REAL8 (5 / 2 ^ 80) = 5 / 2 ^ 80" using to_REAL8_dyadic[of 5 80] by simp
  have m: "1 / 2 ^ 39 * (1 / 2 ^ 39) = (1::real) / 2 ^ 78"
    "1 / 2 ^ 40 * (1 / 2 ^ 40) = (1::real) / 2 ^ 80"
    "(0::real) * 0 = 0"
    "1 / 2 ^ 39 * (1 / 2 ^ 40) = (1::real) / 2 ^ 79"
    "1 / 2 ^ 40 * 0 = (0::real)"
    "2 * (1 / 2 ^ 79) = (1::real) / 2 ^ 78"
    "1 / 2 ^ 78 * (1 / 2 ^ 78) = (1::real) / 2 ^ 156"
    by simp_all
  have a: "1 / 2 ^ 78 + 1 / 2 ^ 80 = (5::real) / 2 ^ 80"
    "5 / 2 ^ 80 + 1 / 2 ^ 80 = (6::real) / 2 ^ 80"
    "6 / 2 ^ 80 + 0 = (6::real) / 2 ^ 80"
    "5 / 2 ^ 80 - 1 / 2 ^ 80 = (1::real) / 2 ^ 78"
    "1 / 2 ^ 78 - 0 = (1::real) / 2 ^ 78"
    "1 / 2 ^ 79 + 0 = (1::real) / 2 ^ 79"
    "(0::real) + 0 = 0"
    "6 / 2 ^ 80 / 2 = (3::real) / 2 ^ 80"
    "6 / 2 ^ 80 + 1 / 2 ^ 78 = (10::real) / 2 ^ 80"
    "10 / 2 ^ 80 / 2 = (5::real) / 2 ^ 80"
    by simp_all
  have V0: "sample_V0_REAL4 (1 / 2 ^ 39) (1 / 2 ^ 40) (1 / 2 ^ 40) 0 = 6 / 2 ^ 80"
    unfolding sample_V0_REAL4_def Let_def
    by (simp only: m a r78 r80 r5 r6 to_REAL4_zero)
  have V1: "sample_V1_REAL4 (1 / 2 ^ 39) (1 / 2 ^ 40) (1 / 2 ^ 40) 0 = 1 / 2 ^ 78"
    unfolding sample_V1_REAL4_def Let_def
    by (simp only: m a r78 r80 r5 to_REAL4_zero)
  have V2: "sample_V2_REAL4 (1 / 2 ^ 39) (1 / 2 ^ 40) (1 / 2 ^ 40) 0 = 1 / 2 ^ 78"
    unfolding sample_V2_REAL4_def
    by (simp only: m a r78 r79 to_REAL4_zero)
  have rhoU: "rhoUnconstraint_REAL4 (6 / 2 ^ 80) (1 / 2 ^ 78) (1 / 2 ^ 78)
      = to_REAL4 (to_REAL8 (sqrt (3 / 2 ^ 80)))"
    unfolding rhoUnconstraint_REAL4_def
    by (simp only: m a u d6 d3 to_REAL4_zero to_REAL8_zero real_sqrt_zero)
  have at: "atan2 (1 / 2 ^ 78) (1 / 2 ^ 78) = pi / 4"
    by (simp add: atan2_def arctan_one)
  have h4: "to_REAL4 (1 / 2) = 1 / 2" using to_REAL4_dyadic[of 1 1] by simp
  have h8: "to_REAL8 (1 / 2) = 1 / 2" using to_REAL8_dyadic[of 1 1] by simp
  have o4: "to_REAL4 1 = 1" using to_REAL4_dyadic[of 1 0] by simp
  have o8: "to_REAL8 1 = 1" using to_REAL8_dyadic[of 1 0] by simp
  have t8: "to_REAL8 2 = 2" using to_REAL8_dyadic[of 2 0] by simp
  have th8: "to_REAL8 (3 / 2) = 3 / 2" using to_REAL8_dyadic[of 3 1] by simp
  have "1 / 2 \<le> pi / 4" using pi_ge_two by simp
  then have "to_REAL4 (to_REAL8 (1 / 2)) \<le> thetav_REAL4 (1 / 2 ^ 78) (1 / 2 ^ 78)"
    unfolding thetav_REAL4_def at by (intro to_REAL4_mono to_REAL8_mono)
  then have c1: "0 < thetav_REAL4 (1 / 2 ^ 78) (1 / 2 ^ 78)" unfolding h4 h8 by simp
  have "pi / 4 \<le> 1" using pi_less_4 by simp
  then have "thetav_REAL4 (1 / 2 ^ 78) (1 / 2 ^ 78) \<le> to_REAL4 (to_REAL8 1)"
    unfolding thetav_REAL4_def at by (intro to_REAL4_mono to_REAL8_mono)
  then have hi: "thetav_REAL4 (1 / 2 ^ 78) (1 / 2 ^ 78) \<le> 1" by (simp only: o4 o8)
  have "to_REAL8 2 \<le> to_REAL8 pi" using pi_ge_two by (rule to_REAL8_mono)
  then have "3 / 2 \<le> to_REAL8 pi + - (1 / 2)" unfolding t8 by simp
  then have "to_REAL8 (3 / 2) \<le> to_REAL8 (to_REAL8 pi + - (1 / 2))" by (rule to_REAL8_mono)
  then have c2: "thetav_REAL4 (1 / 2 ^ 78) (1 / 2 ^ 78) \<le> to_REAL8 (to_REAL8 pi + - (1 / 2))"
    unfolding th8 using hi by linarith
  have neg: "- (1 / 2) < (0::real)" by simp
  have "rho_constraint_REAL4 (- (1 / 2)) (thetav_REAL4 (1 / 2 ^ 78) (1 / 2 ^ 78))
          (6 / 2 ^ 80) (1 / 2 ^ 78) (1 / 2 ^ 78) rU
      = Inr (to_REAL4 (to_REAL8 (sqrt (to_REAL8 (to_REAL4 (6 / 2 ^ 80 + 1 / 2 ^ 78) / 2)))))" for rU
    by (rule rho_constraint_REAL4_second[OF neg c1 c2])
  then have rhoC: "rho_constraint_REAL4 (- (1 / 2)) (thetav_REAL4 (1 / 2 ^ 78) (1 / 2 ^ 78))
          (6 / 2 ^ 80) (1 / 2 ^ 78) (1 / 2 ^ 78) rU
      = Inr (to_REAL4 (to_REAL8 (sqrt (5 / 2 ^ 80))))" for rU
    by (simp only: a r10 d5)
  have c: "sample_rhoConstraint_REAL4 (- (1 / 2)) (1 / 2 ^ 39) (1 / 2 ^ 40) (1 / 2 ^ 40) 0
      = Inr (to_REAL4 (to_REAL8 (sqrt (5 / 2 ^ 80))))"
    unfolding sample_rhoConstraint_REAL4_def Let_def V0 V1 V2 by (rule rhoC)
  have s7: "to_REAL4 (7 / 2 ^ 42) = 7 / 2 ^ 42" using to_REAL4_dyadic[of 7 42] by simp
  have e7: "to_REAL8 (7 / 2 ^ 42) = 7 / 2 ^ 42" using to_REAL8_dyadic[of 7 42] by simp
  have e39: "to_REAL8 (1 / 2 ^ 39) = 1 / 2 ^ 39" using to_REAL8_dyadic[of 1 39] by simp
  have "sqrt (3 / 2 ^ 80) \<le> 7 / 2 ^ 42"
    by (rule real_le_lsqrt) (simp_all add: power2_eq_square)
  then have "to_REAL4 (to_REAL8 (sqrt (3 / 2 ^ 80))) \<le> to_REAL4 (to_REAL8 (7 / 2 ^ 42))"
    by (intro to_REAL4_mono to_REAL8_mono)
  then have up: "to_REAL4 (to_REAL8 (sqrt (3 / 2 ^ 80))) \<le> 7 / 2 ^ 42" by (simp only: s7 e7)
  have "1 / 2 ^ 39 \<le> sqrt (5 / 2 ^ 80)"
    by (rule real_le_rsqrt) (simp add: power2_eq_square)
  then have "to_REAL4 (to_REAL8 (1 / 2 ^ 39)) \<le> to_REAL4 (to_REAL8 (sqrt (5 / 2 ^ 80)))"
    by (intro to_REAL4_mono to_REAL8_mono)
  then have lo: "1 / 2 ^ 39 \<le> to_REAL4 (to_REAL8 (sqrt (5 / 2 ^ 80)))" by (simp only: r39 e39)
  have "(7::real) / 2 ^ 42 < 1 / 2 ^ 39" by simp
  then have lt: "to_REAL4 (to_REAL8 (sqrt (3 / 2 ^ 80))) < to_REAL4 (to_REAL8 (sqrt (5 / 2 ^ 80)))"
    using up lo by linarith
  have rm: "to_REAL4 (- (1 / 2)) = - (1 / 2)" by (simp only: to_REAL4_minus h4)
  have "sample_rhoUnconstraint_REAL4 (1 / 2 ^ 39) (1 / 2 ^ 40) (1 / 2 ^ 40) 0
      = to_REAL4 (to_REAL8 (sqrt (3 / 2 ^ 80)))"
    unfolding sample_rhoUnconstraint_REAL4_def V0 V1 V2 by (rule rhoU)
  then show ?thesis using r39 r40 rm c lt by (simp only: simp_thms)
qed


text \<open>
  C2, amended: whichever sector formula is selected, its value is at most
  \<open>sqrt ((V0 + sqrt (V1\<^sup>2 + V2\<^sup>2)) / 2)\<close> when both are evaluated in exact real arithmetic
  on the same \<open>V0\<close>, \<open>V1\<close>, \<open>V2\<close>, in particular on those of the same four correlations.
  In the \<^verbatim>\<open>REAL4\<close> arithmetic of the code the first sector assigns the stored
  \<^verbatim>\<open>rhoUnconstraint\<close> itself to \<^verbatim>\<open>rhoConstraint\<close>, so that the two stored values are equal
  there; and in every sector the stored \<^verbatim>\<open>rhoConstraint\<close> is at most the stored
  \<^verbatim>\<open>rhoUnconstraint\<close> whenever the computed arguments of the outer square roots of the
  second and the third formula are at most the computed argument of the outer square
  root of \<^verbatim>\<open>rhoUnconstraint\<close>. Without that condition the inequality of the stored
  values is not asserted: the roundings inside the arguments can reverse it.
\<close>

theorem constrained_le_unconstrained_exact:
  "(rho_constraint thetab thetav V0 V1 V2 (sqrt ((V0 + sqrt (V1 * V1 + V2 * V2)) / 2))
      = Inr rhoConstraint \<longrightarrow>
        rhoConstraint \<le> sqrt ((V0 + sqrt (V1 * V1 + V2 * V2)) / 2))
   \<and> (rho_constraint thetab thetav (sample_V0 x1 x2 x3 x4) (sample_V1 x1 x2 x3 x4)
        (sample_V2 x1 x2 x3 x4) (sample_rhoUnconstraint x1 x2 x3 x4) = Inr rhoConstraint' \<longrightarrow>
        rhoConstraint' \<le> sample_rhoUnconstraint x1 x2 x3 x4)
   \<and> ((0 \<le> thetab \<and> 0 \<le> thetav \<and> thetav \<le> to_REAL4 (2 * thetab))
        \<or> (thetab < 0 \<and> to_REAL4 (2 * thetab) \<le> thetav \<and> thetav \<le> 0) \<longrightarrow>
        rho_constraint_REAL4 thetab thetav V0 V1 V2 rhoUnconstraint = Inr rhoUnconstraint)
   \<and> (rho_constraint_REAL4 thetab thetav V0 V1 V2 (rhoUnconstraint_REAL4 V0 V1 V2)
        = Inr rhoConstraint''
       \<and> to_REAL8 (to_REAL4 (V0 + V1) / 2)
           \<le> to_REAL8 (to_REAL8 (V0
                + to_REAL8 (sqrt (to_REAL4 (to_REAL4 (V1 * V1) + to_REAL4 (V2 * V2))))) / 2)
       \<and> to_REAL8 (to_REAL8 (to_REAL8 (V0
                + to_REAL8 (V1 * to_REAL8 (cos (to_REAL4 (2 * thetab)))))
                + to_REAL8 (V2 * to_REAL8 (sin (to_REAL4 (2 * thetab))))) / 2)
           \<le> to_REAL8 (to_REAL8 (V0
                + to_REAL8 (sqrt (to_REAL4 (to_REAL4 (V1 * V1) + to_REAL4 (V2 * V2))))) / 2) \<longrightarrow>
        rhoConstraint'' \<le> rhoUnconstraint_REAL4 V0 V1 V2)"
proof (intro conjI impI)
  assume "rho_constraint thetab thetav V0 V1 V2 (sqrt ((V0 + sqrt (V1 * V1 + V2 * V2)) / 2))
      = Inr rhoConstraint"
  then show "rhoConstraint \<le> sqrt ((V0 + sqrt (V1 * V1 + V2 * V2)) / 2)"
    by (rule rho_constraint_le)
next
  assume "rho_constraint thetab thetav (sample_V0 x1 x2 x3 x4) (sample_V1 x1 x2 x3 x4)
        (sample_V2 x1 x2 x3 x4) (sample_rhoUnconstraint x1 x2 x3 x4) = Inr rhoConstraint'"
  then show "rhoConstraint' \<le> sample_rhoUnconstraint x1 x2 x3 x4"
    using rho_constraint_le by (simp add: sample_rhoUnconstraint_def Let_def)
next
  assume "(0 \<le> thetab \<and> 0 \<le> thetav \<and> thetav \<le> to_REAL4 (2 * thetab))
        \<or> (thetab < 0 \<and> to_REAL4 (2 * thetab) \<le> thetav \<and> thetav \<le> 0)"
  then show "rho_constraint_REAL4 thetab thetav V0 V1 V2 rhoUnconstraint = Inr rhoUnconstraint"
    by (auto simp: rho_constraint_REAL4_def Let_def)
next
  let ?R = "to_REAL8 (to_REAL8 (V0
                + to_REAL8 (sqrt (to_REAL4 (to_REAL4 (V1 * V1) + to_REAL4 (V2 * V2))))) / 2)"
  let ?R2 = "to_REAL8 (to_REAL4 (V0 + V1) / 2)"
  let ?R3 = "to_REAL8 (to_REAL8 (to_REAL8 (V0
                + to_REAL8 (V1 * to_REAL8 (cos (to_REAL4 (2 * thetab)))))
                + to_REAL8 (V2 * to_REAL8 (sin (to_REAL4 (2 * thetab))))) / 2)"
  assume h: "rho_constraint_REAL4 thetab thetav V0 V1 V2 (rhoUnconstraint_REAL4 V0 V1 V2)
        = Inr rhoConstraint'' \<and> ?R2 \<le> ?R \<and> ?R3 \<le> ?R"
  have U: "rhoUnconstraint_REAL4 V0 V1 V2 = to_REAL4 (to_REAL8 (sqrt ?R))"
    by (simp add: rhoUnconstraint_REAL4_def)
  have "rhoConstraint'' = rhoUnconstraint_REAL4 V0 V1 V2
      \<or> rhoConstraint'' = to_REAL4 (to_REAL8 (sqrt ?R2))
      \<or> rhoConstraint'' = to_REAL4 (to_REAL8 (sqrt ?R3))"
    using h rho_constraint_REAL4_cases by blast
  then show "rhoConstraint'' \<le> rhoUnconstraint_REAL4 V0 V1 V2"
    unfolding U using h stored_sqrt_mono[of ?R2 ?R] stored_sqrt_mono[of ?R3 ?R] by auto
qed

theorem constrained_le_unconstrained_exact_witness:
  "rho_constraint (- 1) (pi / 2) 2 0 2 (sqrt ((2 + sqrt (0 * 0 + 2 * 2)) / 2)) = Inr 1
   \<and> 1 \<le> sqrt ((2 + sqrt (0 * 0 + 2 * 2)) / 2)
   \<and> rho_constraint (- 1) (pi / 2) (sample_V0 1 1 0 0) (sample_V1 1 1 0 0) (sample_V2 1 1 0 0)
       (sample_rhoUnconstraint 1 1 0 0) = Inr 1
   \<and> 1 \<le> sample_rhoUnconstraint 1 1 0 0
   \<and> rho_constraint_REAL4 0 0 1 1 0 1 = Inr 1
   \<and> rho_constraint_REAL4 0 0 1 1 0 (rhoUnconstraint_REAL4 1 1 0) = Inr 1
   \<and> 1 \<le> rhoUnconstraint_REAL4 1 1 0"
proof -
  have p: "pi / 2 \<le> pi - 1" using pi_ge_two by simp
  then have h1: "rho_constraint (- 1) (pi / 2) 2 0 2 (sqrt ((2 + sqrt (0 * 0 + 2 * 2)) / 2)) = Inr 1"
    by (simp add: rho_constraint_def LAL_PI_def)
  have h2: "rho_constraint (- 1) (pi / 2) (sample_V0 1 1 0 0) (sample_V1 1 1 0 0)
      (sample_V2 1 1 0 0) (sample_rhoUnconstraint 1 1 0 0) = Inr 1"
    using p by (simp add: rho_constraint_def LAL_PI_def sample_V0_def sample_V1_def sample_V2_def)
  have h3: "(0 \<le> (0::real) \<and> 0 \<le> (0::real) \<and> 0 \<le> to_REAL4 (2 * 0))
        \<or> ((0::real) < 0 \<and> to_REAL4 (2 * 0) \<le> 0 \<and> (0::real) \<le> 0)"
    by simp
  have o4: "to_REAL4 1 = 1" using to_REAL4_dyadic[of 1 0] by simp
  have o8: "to_REAL8 1 = 1" using to_REAL8_dyadic[of 1 0] by simp
  have t4: "to_REAL4 2 = 2" using to_REAL4_dyadic[of 2 0] by simp
  have t8: "to_REAL8 2 = 2" using to_REAL8_dyadic[of 2 0] by simp
  have U: "rhoUnconstraint_REAL4 1 1 0 = 1"
    by (simp add: rhoUnconstraint_REAL4_def o4 o8 t8)
  have S: "rho_constraint_REAL4 0 0 1 1 0 (rhoUnconstraint_REAL4 1 1 0) = Inr 1"
    by (simp add: rho_constraint_REAL4_def Let_def U)
  have R2: "to_REAL8 (to_REAL4 (1 + 1) / 2)
      \<le> to_REAL8 (to_REAL8 (1 + to_REAL8 (sqrt (to_REAL4 (to_REAL4 (1 * 1) + to_REAL4 (0 * 0))))) / 2)"
    by (simp add: o4 o8 t4 t8)
  have R3: "to_REAL8 (to_REAL8 (to_REAL8 (1 + to_REAL8 (1 * to_REAL8 (cos (to_REAL4 (2 * 0)))))
                + to_REAL8 (0 * to_REAL8 (sin (to_REAL4 (2 * 0))))) / 2)
      \<le> to_REAL8 (to_REAL8 (1 + to_REAL8 (sqrt (to_REAL4 (to_REAL4 (1 * 1) + to_REAL4 (0 * 0))))) / 2)"
    by (simp add: o4 o8 t4 t8)
  note A = constrained_le_unconstrained_exact[of "- 1" "pi / 2" 2 0 2 1,
      THEN conjunct1, THEN mp, OF h1]
  note B = constrained_le_unconstrained_exact[of "- 1" "pi / 2" _ _ _ _ 1 1 0 0 1,
      THEN conjunct2, THEN conjunct1, THEN mp, OF h2]
  note C = constrained_le_unconstrained_exact[of 0 0 1 1 0 _ _ _ _ _ _ 1,
      THEN conjunct2, THEN conjunct2, THEN conjunct1, THEN mp, OF h3]
  note D = constrained_le_unconstrained_exact[of 0 0 1 1 0 _ _ _ _ _ _ _ 1,
      THEN conjunct2, THEN conjunct2, THEN conjunct2, THEN mp, OF conjI[OF S conjI[OF R2 R3]]]
  show ?thesis using h1 A h2 B C S D by blast
qed

text \<open>
  Over the reals \<open>atan2\<close> always lies in \<open>[-pi, pi]\<close>, so the sample loop never takes
  the fallback branch: the function returns normally whenever the correlations succeed,
  and its only failure is the early return after a failed correlation.
\<close>

lemma overlap_scan_total:
  assumes "\<And>i s. i \<in> set ks \<Longrightarrow> \<exists>s'. body i s = Inr s'"
  shows "\<exists>s'. overlap_scan body ks s = Inr s'"
  using assms
proof (induction ks arbitrary: s)
  case Nil
  then show ?case by simp
next
  case (Cons k ks)
  obtain s1 where "body k s = Inr s1" using Cons.prems[of k s] by auto
  then show ?case using Cons.IH[of s1] Cons.prems by auto
qed

lemma overlap_sample_total:
  "\<exists>s'. overlap_sample otherIn thetab a11' a21' a22' fp23 x1 x2 x3 x4 i s = Inr s'"
proof -
  let ?V0 = "sample_V0 (x1 ! i) (x2 ! i) (x3 ! i) (x4 ! i)"
  let ?V1 = "sample_V1 (x1 ! i) (x2 ! i) (x3 ! i) (x4 ! i)"
  let ?V2 = "sample_V2 (x1 ! i) (x2 ! i) (x3 ! i) (x4 ! i)"
  let ?rU = "sample_rhoUnconstraint (x1 ! i) (x2 ! i) (x3 ! i) (x4 ! i)"
  have r: "- LAL_PI - 1 / 10000 \<le> atan2 ?V2 ?V1" "atan2 ?V2 ?V1 \<le> LAL_PI + 1 / 10000"
    using atan2_range[of ?V2 ?V1] by (simp_all add: LAL_PI_def)
  have "\<exists>r. rho_constraint thetab (atan2 ?V2 ?V1) ?V0 ?V1 ?V2 ?rU = Inr r"
    using rho_constraint_cases[OF r, of thetab ?V0 ?V1 ?V2 ?rU] by auto
  then show ?thesis
    by (auto simp: overlap_sample_def sample_sector_def Let_def)
qed

lemma LALWaveOverlapBCV_total:
  assumes "\<And>c. fst (LALInspiralWaveCorrelate c)"
  shows "\<exists>r. LALWaveOverlapBCV LALInspiralWaveCorrelate correlation overlapin FilterBCV1 FilterBCV2
           otherIn OverlapOutput moments = Inr r"
proof -
  let ?ov = "overlapin\<lparr>param := (param overlapin)\<lparr>nStartPad := 0, startPhase := 0\<rparr>\<rparr>"
  have ok: "\<exists>x. LALInspiralWaveCorrelate c = (True, x)" for c
    using assms[of c] by (cases "LALInspiralWaveCorrelate c") simp
  obtain x1 where c1: "LALInspiralWaveCorrelate (corrin_of ?ov FilterBCV1) = (True, x1)"
    using ok by blast
  obtain x3 where c3: "LALInspiralWaveCorrelate
      (corrin_of ?ov (LALGetOrthogonalFilterBCV2 FilterBCV1)) = (True, x3)"
    using ok by blast
  obtain x2 where c2: "LALInspiralWaveCorrelate (corrin_of ?ov FilterBCV2) = (True, x2)"
    using ok by blast
  obtain x4 where c4: "LALInspiralWaveCorrelate
      (corrin_of ?ov (LALGetOrthogonalFilterBCV2 FilterBCV2)) = (True, x4)"
    using ok by blast
  have s: "\<exists>s'. overlap_scan (overlap_sample otherIn thetab a11' a21' a22' fp23 x1 x2 x3 x4) ks s
             = Inr s'" for thetab a11' a21' a22' fp23 ks s
    by (rule overlap_scan_total) (rule overlap_sample_total)
  have s': "overlap_scan (overlap_sample otherIn thetab a11' a21' a22' fp23 x1 x2 x3 x4) ks s
             \<noteq> Inl e" for thetab a11' a21' a22' fp23 ks s e
    using s[of thetab a11' a21' a22' fp23 ks s] by auto
  show ?thesis
    unfolding LALWaveOverlapBCV_def Let_def c1 c2 c3 c4 case_prod_conv
    by (auto split: sum.splits simp: s')
qed

lemma overlap_scan_no_failure:
  "overlap_scan (overlap_sample otherIn thetab a11' a21' a22' fp23 x1 x2 x3 x4) ks s \<noteq> Inl e"
  using overlap_scan_total[of ks "overlap_sample otherIn thetab a11' a21' a22' fp23 x1 x2 x3 x4" s]
    overlap_sample_total[of otherIn thetab a11' a21' a22' fp23 x1 x2 x3 x4]
  by auto

lemma LALWaveOverlapBCV_failure:
  assumes "LALWaveOverlapBCV LALInspiralWaveCorrelate correlation overlapin FilterBCV1 FilterBCV2
           otherIn OverlapOutput moments = Inl e"
  shows "e = StatusError"
  using assms
  by (auto simp: LALWaveOverlapBCV_def Let_def overlap_scan_no_failure
      split: prod.splits if_splits sum.splits)

text \<open>
  C10: when the function returns normally and the extra final printing is off, each of
  the two filter buffers holds the orthogonalized companion of the filter passed in:
  \<^verbatim>\<open>LALGetOrthogonalFilterBCV2\<close> has been applied to it exactly once.
\<close>

theorem overlap_orthogonalizes_filters:
  assumes "\<not> (printBestOverlap otherIn \<and> extraFinalPrinting otherIn)"
    and "LALWaveOverlapBCV LALInspiralWaveCorrelate correlation overlapin FilterBCV1 FilterBCV2
           otherIn OverlapOutput moments
         = Inr (correlation', overlapin', FilterBCV1', FilterBCV2', OverlapOutput')"
  shows "FilterBCV1' = LALGetOrthogonalFilterBCV2 FilterBCV1
       \<and> FilterBCV2' = LALGetOrthogonalFilterBCV2 FilterBCV2"
  using assms
  by (auto simp: LALWaveOverlapBCV_def Let_def split: prod.splits if_splits sum.splits)

text \<open>
  With the extra final printing on, the printing block applies the orthogonalizer to each
  filter a second time.
\<close>

lemma overlap_final_printing_filters:
  assumes "printBestOverlap otherIn \<and> extraFinalPrinting otherIn"
    and "LALWaveOverlapBCV LALInspiralWaveCorrelate correlation overlapin FilterBCV1 FilterBCV2
           otherIn OverlapOutput moments
         = Inr (correlation', overlapin', FilterBCV1', FilterBCV2', OverlapOutput')"
  shows "FilterBCV1' = LALGetOrthogonalFilterBCV2 (LALGetOrthogonalFilterBCV2 FilterBCV1)
       \<and> FilterBCV2' = LALGetOrthogonalFilterBCV2 (LALGetOrthogonalFilterBCV2 FilterBCV2)"
  using assms
  by (auto simp: LALWaveOverlapBCV_def Let_def split: prod.splits if_splits sum.splits)

theorem overlap_orthogonalizes_filters_witness:
  "\<exists>correlation' overlapin' OverlapOutput'.
     LALWaveOverlapBCV (\<lambda>c. (True, [0, 0, 0, 0])) [0, 0, 0, 0]
       \<lparr>nBegin = 0, nEnd = 0, psd_in = [1, 1, 1], signal = [0, 0, 0, 0],
         param = \<lparr>fLower = 1, tSampling = 4, fFinal = 1, nStartPad = 0, startPhase = 0\<rparr>\<rparr>
       [1, 2, 3, 4] [5, 6, 7, 8]
       \<lparr>alphaFConstraint = ALPHAFConstraint, printBestOverlap = False, printSNRHisto = False,
         extraFinalPrinting = False\<rparr>
       BEInitOverlapOutputIn \<lparr>a11 = [0, 1], a21 = [0, 1], a22 = [0, 1]\<rparr>
     = Inr (correlation', overlapin', [1, - 4, 3, 2], [5, - 8, 7, 6], OverlapOutput')"
proof -
  let ?corr = "\<lambda>c :: InspiralWaveCorrelateIn. (True, [0, 0, 0, 0 :: real])"
  let ?oi = "\<lparr>alphaFConstraint = ALPHAFConstraint, printBestOverlap = False,
              printSNRHisto = False, extraFinalPrinting = False\<rparr>"
  let ?ov = "\<lparr>nBegin = 0, nEnd = 0, psd_in = [1, 1, 1], signal = [0, 0, 0, 0],
         param = \<lparr>fLower = 1, tSampling = 4, fFinal = 1, nStartPad = 0, startPhase = 0\<rparr>\<rparr>"
  let ?mom = "\<lparr>a11 = [0, 1], a21 = [0, 1], a22 = [0, 1]\<rparr>"
  have "\<exists>r. LALWaveOverlapBCV ?corr [0, 0, 0, 0] ?ov [1, 2, 3, 4] [5, 6, 7, 8] ?oi
          BEInitOverlapOutputIn ?mom = Inr r"
    by (rule LALWaveOverlapBCV_total) simp
  then obtain c ov F1 F2 out where
    r: "LALWaveOverlapBCV ?corr [0, 0, 0, 0] ?ov [1, 2, 3, 4] [5, 6, 7, 8] ?oi
          BEInitOverlapOutputIn ?mom = Inr (c, ov, F1, F2, out)"
    by (metis prod_cases5)
  have np: "\<not> (printBestOverlap ?oi \<and> extraFinalPrinting ?oi)" by simp
  have o1: "LALGetOrthogonalFilterBCV2 [1, 2, 3, 4] = [1, - 4, 3, 2]"
    by (simp add: LALGetOrthogonalFilterBCV2_def orthogonal_swap_def Let_def)
  have o2: "LALGetOrthogonalFilterBCV2 [5, 6, 7, 8] = [5, - 8, 7, 6]"
    by (simp add: LALGetOrthogonalFilterBCV2_def orthogonal_swap_def Let_def)
  have "F1 = [1, - 4, 3, 2] \<and> F2 = [5, - 8, 7, 6]"
    using overlap_orthogonalizes_filters[OF np r] by (simp add: o1 o2)
  then show ?thesis using r by blast
qed

end
